theory Spec2Isabelle
  imports Main "HOL-Library.Word"
begin

unbundle bit_operations_syntax

section \<open>The voice memo recorder (src/main.c) as a shallow embedding\<close>

text \<open>
  The program is one C file on top of SDL2. Its global variables become the fields of the
  record \<open>state\<close>; every function of the file becomes a function on that record. What SDL
  and the C library answer (device counts, opened devices, negotiated formats, the bytes the
  capture thread delivers) is not decided by the program, so it is collected in the record
  \<open>platform\<close> and passed in. Calls into SDL and writes to stdout and stderr are appended to
  the field \<open>trace\<close>, in program order.

  Machine integers: \<open>Uint32\<close>, \<open>Uint16\<close> and \<open>Uint8\<close> are words. A C \<open>int\<close> that only
  holds an index or a count is an \<open>int\<close>; the \<open>int\<close> products of the buffer sizing are computed
  on 32-bit words, that is with two's complement wrap-around (C itself leaves signed overflow
  undefined; the sizing theorem is stated on the range where no overflow happens).

  Memory: the recording buffer is a pointer into a byte-addressed \<open>heap\<close>. \<open>memcpy\<close> reads
  and writes the addresses it is given, whether or not they lie inside the allocation of
  \<open>buffer_byte_size\<close> bytes, as the machine does; an access outside the allocation is
  undefined behaviour in C, and the predicates \<open>write_in_bounds\<close> and \<open>read_in_bounds\<close>
  say when a callback stays inside.
\<close>

subsection \<open>Types and constants\<close>

type_synonym Uint8 = "8 word"
type_synonym Uint16 = "16 word"
type_synonym Uint32 = "32 word"

datatype CmdType = CMDTYPE_SHOW | CMDTYPE_LISTEN | CMDTYPE_RECORD | CMDTYPE_HELP

record ArgCmdRecord =
  key :: string
  device :: int

text \<open>The \<open>void*\<close> argument of \<open>handle_command\<close>: NULL, a key string, or an \<open>ArgCmdRecord\<close>.\<close>

datatype cmd_data = No_Data | Key_Data string | Record_Data ArgCmdRecord

definition MAX_RECORDING_DEVICES :: int where
  "MAX_RECORDING_DEVICES = 5"

definition MAX_RECORDING_SECONDS :: Uint32 where
  "MAX_RECORDING_SECONDS = 5"

definition RECORDING_BUFFER_SECONDS :: Uint32 where
  "RECORDING_BUFFER_SECONDS = MAX_RECORDING_SECONDS + 1"

datatype RecordingState = SELECTING_DEVICE | STOPPED | RECORDING | RECORDED | PLAYBACK | ERROR

text \<open>
  The fields of \<open>SDL_AudioSpec\<close> the program reads or writes. \<open>SDL_AUDIO_BITSIZE\<close> and
  \<open>AUDIO_F32\<close> are SDL's (SDL_audio.h): the low byte of a format is its sample size in bits,
  and \<open>AUDIO_F32\<close> is \<open>AUDIO_F32LSB = 0x8120\<close>.
\<close>

record SDL_AudioSpec =
  freq :: int
  format :: Uint16
  channels :: Uint8
  samples :: Uint16

definition SDL_AUDIO_BITSIZE :: "Uint16 \<Rightarrow> Uint16" where
  "SDL_AUDIO_BITSIZE x = x AND 0xFF"

definition AUDIO_F32 :: Uint16 where
  "AUDIO_F32 = 0x8120"

definition zero_spec :: SDL_AudioSpec where
  "zero_spec = \<lparr>freq = 0, format = 0, channels = 0, samples = 0\<rparr>"

subsection \<open>What the program does to the outside, and what the outside answers\<close>

datatype event =
    Stdout string
  | Stderr string
  | Open_Capture_Device int
  | Open_Playback_Device
  | Calloc nat
  | Pause_Audio_Device Uint32 bool
  | Lock_Audio_Device Uint32
  | Unlock_Audio_Device Uint32
  | Compare_Position bool
  | Invalid_Pointer_Use
  | Quit

text \<open>
  \<open>Open_Capture_Device i\<close> is the call
  \<open>SDL_OpenAudioDevice(SDL_GetAudioDeviceName(i, SDL_TRUE), SDL_TRUE, ...)\<close>;
  \<open>Pause_Audio_Device d on\<close> is \<open>SDL_PauseAudioDevice(d, on)\<close>; \<open>Compare_Position b\<close> is the
  control thread evaluating \<open>buffer_byte_position > buffer_byte_max_position\<close> with result
  \<open>b\<close> (its only read of the cursor the callbacks advance); \<open>Invalid_Pointer_Use\<close> marks a
  use of a pointer that was never initialised or has the wrong type.
\<close>

record platform =
  SDL_Init_result :: int
  SDL_GetError :: string
  SDL_GetNumAudioDevices_capture :: int
  SDL_GetAudioDeviceName_capture :: "int \<Rightarrow> string option"
  open_capture_device :: "int \<Rightarrow> Uint32 \<times> SDL_AudioSpec"
  open_playback_device :: "Uint32 \<times> SDL_AudioSpec"
  calloc_address :: nat
  memory_contents :: "nat \<Rightarrow> Uint8"
  indeterminate_int :: int
  capture_stream :: "Uint8 list list list"
  playback_requests :: "nat list list"

text \<open>
  \<open>open_capture_device i\<close> and \<open>open_playback_device\<close> give the device id SDL returns (0 on
  failure) and the spec it writes to \<open>received_..._spec\<close>. \<open>calloc_address\<close> is the block
  \<open>calloc\<close> returns. \<open>indeterminate_int\<close> is the value of the uninitialised
  \<open>arg_cmd_record.device\<close>. \<open>capture_stream\<close> lists, for each iteration of the recording
  loop of \<open>main\<close>, the chunks the capture thread delivers before that iteration's \<open>update\<close>;
  \<open>playback_requests\<close> lists the lengths the playback thread asks for, in the same way.
\<close>

record state =
  available_device_names :: "string option list option"
  available_recording_device_count :: int
  received_recording_spec :: SDL_AudioSpec
  received_playback_spec :: SDL_AudioSpec
  recording_buffer :: nat
  buffer_byte_size :: Uint32
  buffer_byte_position :: Uint32
  buffer_byte_max_position :: Uint32
  recording_state :: RecordingState
  recording_deviceid :: Uint32
  playback_deviceid :: Uint32
  heap :: "nat \<Rightarrow> Uint8"
  trace :: "event list"

text \<open>
  \<open>available_device_names\<close> is \<open>None\<close> for the NULL pointer; an entry \<open>None\<close> of the array
  is a slot \<open>malloc\<close> left uninitialised. \<open>recording_buffer\<close> is an address, 0 for NULL.
\<close>

definition initial_state :: "platform \<Rightarrow> state" where
  "initial_state plat =
     \<lparr>available_device_names = None,
      available_recording_device_count = 0,
      received_recording_spec = zero_spec,
      received_playback_spec = zero_spec,
      recording_buffer = 0,
      buffer_byte_size = 0,
      buffer_byte_position = 0,
      buffer_byte_max_position = 0,
      recording_state = SELECTING_DEVICE,
      recording_deviceid = 0,
      playback_deviceid = 0,
      heap = memory_contents plat,
      trace = []\<rparr>"

definition emit :: "event list \<Rightarrow> state \<Rightarrow> state" where
  "emit es s = s\<lparr>trace := trace s @ es\<rparr>"

subsection \<open>C library functions\<close>

fun show_nat :: "nat \<Rightarrow> string" where
  "show_nat n =
     (if n < 10 then [char_of (48 + n)]
      else show_nat (n div 10) @ [char_of (48 + n mod 10)])"

text \<open>The conversion \<open>%d\<close> of \<open>printf\<close>.\<close>

definition printf_d :: "int \<Rightarrow> string" where
  "printf_d i = (if i < 0 then CHR ''-'' # show_nat (nat (- i)) else show_nat (nat i))"

text \<open>\<open>strncmp\<close>, up to the sign of its result (the program only tests it against 0).\<close>

fun strncmp :: "string \<Rightarrow> string \<Rightarrow> nat \<Rightarrow> int" where
  "strncmp a b 0 = 0"
| "strncmp [] [] (Suc n) = 0"
| "strncmp [] (y # ys) (Suc n) = - 1"
| "strncmp (x # xs) [] (Suc n) = 1"
| "strncmp (x # xs) (y # ys) (Suc n) =
     (if x = y then strncmp xs ys n
      else if (of_char x :: nat) < of_char y then - 1 else 1)"

definition isspace :: "char \<Rightarrow> bool" where
  "isspace c = ((of_char c :: nat) = 32 \<or> (9 \<le> (of_char c :: nat) \<and> (of_char c :: nat) \<le> 13))"

definition isdigit :: "char \<Rightarrow> bool" where
  "isdigit c = (48 \<le> (of_char c :: nat) \<and> (of_char c :: nat) \<le> 57)"

definition LONG_MAX :: int where
  "LONG_MAX = 2 ^ 63 - 1"

definition LONG_MIN :: int where
  "LONG_MIN = - (2 ^ 63)"

text \<open>
  \<open>strtol(nptr, NULL, 10)\<close>: white space, an optional sign, then the longest run of decimal
  digits (\<open>strtol_digits\<close>); the value is clamped to the range of \<open>long\<close>; with no digit at
  all no conversion is performed and the result is 0.
\<close>

definition strtol_negative :: "string \<Rightarrow> bool" where
  "strtol_negative nptr =
     (case dropWhile isspace nptr of [] \<Rightarrow> False | c # r \<Rightarrow> c = CHR ''-'')"

definition strtol_digits :: "string \<Rightarrow> string" where
  "strtol_digits nptr =
     (case dropWhile isspace nptr of
        [] \<Rightarrow> []
      | c # r \<Rightarrow> takeWhile isdigit (if c = CHR ''-'' \<or> c = CHR ''+'' then r else c # r))"

definition strtol :: "string \<Rightarrow> int" where
  "strtol nptr =
     (let v = foldl (\<lambda>acc c. 10 * acc + (int (of_char c) - 48)) 0 (strtol_digits nptr)
      in if strtol_negative nptr then max LONG_MIN (- v) else min LONG_MAX v)"

text \<open>The conversion of a \<open>long\<close> to an \<open>int\<close> (the low 32 bits, as two's complement).\<close>

definition int_of_long :: "int \<Rightarrow> int" where
  "int_of_long v = sint (word_of_int v :: 32 word)"

text \<open>
  \<open>memcpy\<close> into and out of the heap, and \<open>calloc\<close>/\<open>memset\<close> with 0: the \<open>n\<close> bytes from
  address \<open>a\<close>.
\<close>

definition memcpy_to :: "(nat \<Rightarrow> Uint8) \<Rightarrow> nat \<Rightarrow> Uint8 list \<Rightarrow> (nat \<Rightarrow> Uint8)" where
  "memcpy_to h a bytes =
     (\<lambda>x. if a \<le> x \<and> x < a + length bytes then bytes ! (x - a) else h x)"

definition memcpy_from :: "(nat \<Rightarrow> Uint8) \<Rightarrow> nat \<Rightarrow> nat \<Rightarrow> Uint8 list" where
  "memcpy_from h a n = map h [a ..< a + n]"

definition zero_fill :: "(nat \<Rightarrow> Uint8) \<Rightarrow> nat \<Rightarrow> nat \<Rightarrow> (nat \<Rightarrow> Uint8)" where
  "zero_fill h a n = (\<lambda>x. if a \<le> x \<and> x < a + n then 0 else h x)"

subsection \<open>init, close, the two printing functions\<close>

text \<open>
  The entry of \<open>available_device_names\<close> for device \<open>i\<close>: \<open>snprintf\<close> into 120 bytes keeps at
  most 119 characters of \<open>"[%d] : %s"\<close>; a NULL device name leaves the slot as \<open>malloc\<close> made it.
\<close>

definition device_entry :: "platform \<Rightarrow> int \<Rightarrow> string option" where
  "device_entry plat i =
     (case SDL_GetAudioDeviceName_capture plat i of
        None \<Rightarrow> None
      | Some device_name \<Rightarrow> Some (take 119 (''['' @ printf_d i @ ''] : '' @ device_name)))"

definition init :: "platform \<Rightarrow> state \<Rightarrow> bool \<times> state" where
  "init plat s =
     (let s1 = s\<lparr>available_recording_device_count := SDL_GetNumAudioDevices_capture plat\<rparr>
      in if available_recording_device_count s1 < 1 then
           (False,
            emit [Stderr (''[Error] Unable to get audio capture device! '' @ SDL_GetError plat
                          @ ''\<newline>'')] s1)
         else
           let s2 = (if available_recording_device_count s1 > MAX_RECORDING_DEVICES
                     then s1\<lparr>available_recording_device_count := MAX_RECORDING_DEVICES\<rparr>
                     else s1)
           in (True,
               s2\<lparr>available_device_names :=
                     Some (map (device_entry plat)
                             [0 .. available_recording_device_count s2 - 1])\<rparr>))"

definition close :: "state \<Rightarrow> state" where
  "close s =
     (case available_device_names s of
        None \<Rightarrow> emit [Quit] s
      | Some names \<Rightarrow>
          emit (concat (map (\<lambda>e. case e of None \<Rightarrow> [Invalid_Pointer_Use] | Some n \<Rightarrow> [])
                          (take (nat (available_recording_device_count s)) names)) @ [Quit])
            (s\<lparr>available_device_names := None\<rparr>))"

definition print_all_available_device_names :: "state \<Rightarrow> state" where
  "print_all_available_device_names s =
     emit (map (\<lambda>i. case available_device_names s of
                       None \<Rightarrow> Invalid_Pointer_Use
                     | Some names \<Rightarrow>
                         (case names ! nat i of
                            None \<Rightarrow> Invalid_Pointer_Use
                          | Some n \<Rightarrow> Stdout (n @ ''\<newline>'')))
            [0 .. available_recording_device_count s - 1]) s"

definition print_help :: "state \<Rightarrow> state" where
  "print_help s =
     emit [Stdout ''Available commands\<newline>'',
           Stdout '' show - show all recording devices along with its indexes\<newline>'',
           Stdout '' listen <KEY> - listen to voice memo of specified key\<newline>'',
           Stdout '' record <KEY> - record voice memo with specified key\<newline>'',
           Stdout '' help - show this info\<newline>''] s"

subsection \<open>The two audio callbacks\<close>

text \<open>
  \<open>audio_recording_callback(userdata, stream, len)\<close>: \<open>stream\<close> is the list of the \<open>len\<close> bytes
  SDL hands over. \<open>audio_playback_callback(userdata, stream, len)\<close> returns the \<open>len\<close> bytes
  it writes to \<open>stream\<close>. Both index the buffer by the one cursor \<open>buffer_byte_position\<close>.
\<close>

definition audio_recording_callback :: "Uint8 list \<Rightarrow> state \<Rightarrow> state" where
  "audio_recording_callback stream s =
     s\<lparr>heap := memcpy_to (heap s) (recording_buffer s + unat (buffer_byte_position s)) stream,
       buffer_byte_position := buffer_byte_position s + of_nat (length stream)\<rparr>"

definition audio_playback_callback :: "nat \<Rightarrow> state \<Rightarrow> Uint8 list \<times> state" where
  "audio_playback_callback len s =
     (memcpy_from (heap s) (recording_buffer s + unat (buffer_byte_position s)) len,
      s\<lparr>buffer_byte_position := buffer_byte_position s + of_nat len\<rparr>)"

definition write_in_bounds :: "state \<Rightarrow> nat \<Rightarrow> bool" where
  "write_in_bounds s len = (unat (buffer_byte_position s) + len \<le> unat (buffer_byte_size s))"

definition read_in_bounds :: "state \<Rightarrow> nat \<Rightarrow> bool" where
  "read_in_bounds s len = (unat (buffer_byte_position s) + len \<le> unat (buffer_byte_size s))"

text \<open>The bytes of the allocation, \<open>recording_buffer[0 .. buffer_byte_size)\<close>.\<close>

definition buffer_contents :: "state \<Rightarrow> Uint8 list" where
  "buffer_contents s = memcpy_from (heap s) (recording_buffer s) (unat (buffer_byte_size s))"

text \<open>A run of callbacks, as the audio thread makes them one after the other.\<close>

fun recording_callbacks :: "Uint8 list list \<Rightarrow> state \<Rightarrow> state" where
  "recording_callbacks [] s = s"
| "recording_callbacks (stream # rest) s = recording_callbacks rest (audio_recording_callback stream s)"

fun playback_callbacks :: "nat list \<Rightarrow> state \<Rightarrow> Uint8 list list \<times> state" where
  "playback_callbacks [] s = ([], s)"
| "playback_callbacks (len # rest) s =
     (let (out, s1) = audio_playback_callback len s;
          (outs, s2) = playback_callbacks rest s1
      in (out # outs, s2))"

subsection \<open>update\<close>

text \<open>The parameter \<open>deltaTime\<close> is never read and is left out.\<close>

definition update :: "state \<Rightarrow> state" where
  "update s =
     (if recording_state s = RECORDING then
        (if buffer_byte_position s > buffer_byte_max_position s then
           s\<lparr>recording_state := RECORDED,
             trace := trace s @ [Compare_Position True,
                  Lock_Audio_Device (recording_deviceid s),
                  Pause_Audio_Device (recording_deviceid s) True,
                  Stdout ''Recorded successfully\<newline>'',
                  Unlock_Audio_Device (recording_deviceid s)]\<rparr>
         else emit [Compare_Position False] s)
      else if recording_state s = PLAYBACK then
        (if buffer_byte_position s > buffer_byte_max_position s then
           s\<lparr>recording_state := RECORDED,
             trace := trace s @ [Compare_Position True,
                  Lock_Audio_Device (playback_deviceid s),
                  Pause_Audio_Device (playback_deviceid s) True,
                  Stdout ''Playback complete\<newline>'',
                  Unlock_Audio_Device (playback_deviceid s)]\<rparr>
         else emit [Compare_Position False] s)
      else s)"

subsection \<open>handle_command\<close>

text \<open>
  The local variables \<open>bytes_per_sample\<close> and \<open>bytes_per_second\<close> of \<open>handle_command\<close>, as
  functions of the received recording spec.
\<close>

definition bytes_per_sample :: "SDL_AudioSpec \<Rightarrow> Uint32" where
  "bytes_per_sample spec =
     ucast (channels spec) * (ucast (SDL_AUDIO_BITSIZE (format spec)) div 8)"

definition bytes_per_second :: "SDL_AudioSpec \<Rightarrow> Uint32" where
  "bytes_per_second spec = word_of_int (freq spec) * bytes_per_sample spec"

text \<open>The branch \<open>cmd_type == CMDTYPE_RECORD\<close> (lines 247 to 341).\<close>

definition handle_record :: "platform \<Rightarrow> ArgCmdRecord \<Rightarrow> state \<Rightarrow> state" where
  "handle_record plat param s =
     (let s1 = emit [Stdout ('': param key = '' @ key param @ ''\<newline>''),
                     Stdout ('': param device = '' @ printf_d (device param) @ ''\<newline>'')] s
      in if device param < available_recording_device_count s1 then
           (let s2 = (emit [Open_Capture_Device (device param)] s1)
                       \<lparr>recording_deviceid := fst (open_capture_device plat (device param)),
                        received_recording_spec := snd (open_capture_device plat (device param))\<rparr>
            in if recording_deviceid s2 = 0 then
                 (emit [Stderr (''[Error] Failed to open audio device ['' @ printf_d (device param)
                                @ '']: '' @ SDL_GetError plat @ ''\<newline>'')] s2)
                   \<lparr>recording_state := ERROR\<rparr>
               else
                 (let s3 = (emit [Open_Playback_Device] s2)
                             \<lparr>playback_deviceid := fst (open_playback_device plat),
                              received_playback_spec := snd (open_playback_device plat)\<rparr>
                  in if playback_deviceid s3 = 0 then
                       (emit [Stderr (''[Error] Failed to open playback device! ''
                                      @ SDL_GetError plat @ ''\<newline>'')] s3)
                         \<lparr>recording_state := ERROR\<rparr>
                     else
                       (let s4 = s3\<lparr>buffer_byte_size :=
                                       RECORDING_BUFFER_SECONDS
                                         * bytes_per_second (received_recording_spec s3),
                                     buffer_byte_max_position :=
                                       MAX_RECORDING_SECONDS
                                         * bytes_per_second (received_recording_spec s3)\<rparr>;
                            s5 = (emit [Calloc (unat (buffer_byte_size s4))] s4)
                                   \<lparr>recording_buffer := calloc_address plat,
                                    heap := zero_fill (heap s4) (calloc_address plat)
                                              (unat (buffer_byte_size s4))\<rparr>;
                            s6 = (emit [Stdout (''buffer size = ''
                                                @ printf_d (sint (buffer_byte_size s5))
                                                @ ''\<newline>'')] s5)
                                   \<lparr>recording_state := STOPPED\<rparr>;
                            s7 = (emit [Stdout ''Device opened successfully\<newline>''] s6)
                                   \<lparr>buffer_byte_position := 0\<rparr>;
                            s8 = emit [Pause_Audio_Device (recording_deviceid s7) False,
                                       Stdout ''Recording...\<newline>''] s7
                        in s8\<lparr>recording_state := RECORDING\<rparr>)))
         else s1)"

text \<open>The \<open>switch\<close> that ends \<open>handle_command\<close> (lines 343 to 376), with its fixed \<open>key_press\<close>.\<close>

definition key_press_switch :: "state \<Rightarrow> state" where
  "key_press_switch s =
     (let key_press = CHR ''d''
      in case recording_state s of
           RECORDED \<Rightarrow>
             (if key_press = CHR ''1'' then
                (emit [Pause_Audio_Device (playback_deviceid s) False,
                       Stdout ''Playing...\<newline>'']
                   (s\<lparr>buffer_byte_position := 0\<rparr>))
                  \<lparr>recording_state := PLAYBACK\<rparr>
              else if key_press = CHR ''2'' then
                (emit [Pause_Audio_Device (recording_deviceid s) False,
                       Stdout ''Recording...\<newline>'']
                   (s\<lparr>buffer_byte_position := 0,
                      heap := zero_fill (heap s) (recording_buffer s)
                                (unat (buffer_byte_size s))\<rparr>))
                  \<lparr>recording_state := RECORDING\<rparr>
              else s)
         | _ \<Rightarrow> s)"

definition handle_command :: "platform \<Rightarrow> CmdType \<Rightarrow> cmd_data \<Rightarrow> state \<Rightarrow> state" where
  "handle_command plat cmd_type data s =
     key_press_switch
       (if cmd_type = CMDTYPE_SHOW then print_all_available_device_names s
        else if cmd_type = CMDTYPE_HELP then print_help s
        else if cmd_type = CMDTYPE_LISTEN then
          (case data of
             Key_Data k \<Rightarrow> emit [Stdout (''key = '' @ k @ ''\<newline>'')] s
           | _ \<Rightarrow> emit [Invalid_Pointer_Use] s)
        else if cmd_type = CMDTYPE_RECORD then
          (case data of
             Record_Data param \<Rightarrow> handle_record plat param s
           | _ \<Rightarrow> emit [Invalid_Pointer_Use] s)
        else s)"

subsection \<open>main\<close>

text \<open>
  What a run of the program leaves behind: the value \<open>main\<close> returns, the chunks the
  playback callback handed to the playback device, and the final state with its trace.
\<close>

record outcome =
  exit_code :: int
  played :: "Uint8 list list"
  final :: state

text \<open>
  The two polling loops of \<open>main\<close>, \<open>do update(...) while (recording_state != RECORDED)\<close>.
  The audio thread runs beside them: the head of the schedule is what it does before the
  next call of \<open>update\<close>. When the schedule is used up the audio thread delivers nothing
  more, the cursor stands still, and a loop whose \<open>update\<close> does not reach \<open>RECORDED\<close> then
  never will: it does not return (\<open>None\<close>).
\<close>

fun recording_loop :: "Uint8 list list list \<Rightarrow> state \<Rightarrow> state option" where
  "recording_loop [] s =
     (let s1 = update s in if recording_state s1 \<noteq> RECORDED then None else Some s1)"
| "recording_loop (streams # rest) s =
     (let s1 = update (recording_callbacks streams s)
      in if recording_state s1 \<noteq> RECORDED then recording_loop rest s1 else Some s1)"

fun playback_loop :: "nat list list \<Rightarrow> state \<Rightarrow> (Uint8 list list \<times> state) option" where
  "playback_loop [] s =
     (let s1 = update s in if recording_state s1 \<noteq> RECORDED then None else Some ([], s1))"
| "playback_loop (lens # rest) s =
     (let (outs, s0) = playback_callbacks lens s;
          s1 = update s0
      in if recording_state s1 \<noteq> RECORDED then
           (case playback_loop rest s1 of
              None \<Rightarrow> None
            | Some (later, s2) \<Rightarrow> Some (outs @ later, s2))
         else Some (outs, s1))"

text \<open>
  What the capture thread has delivered when the recording loop ends: the part of the
  schedule \<open>recording_loop\<close> has used, by the same recursion.
\<close>

fun recording_loop_streams :: "Uint8 list list list \<Rightarrow> state \<Rightarrow> Uint8 list list" where
  "recording_loop_streams [] s = []"
| "recording_loop_streams (streams # rest) s =
     (let s1 = update (recording_callbacks streams s)
      in if recording_state s1 \<noteq> RECORDED then streams @ recording_loop_streams rest s1
         else streams)"

text \<open>Lines 496 to 505 of \<open>main\<close>: rewind the cursor and start the playback device.\<close>

definition start_playback :: "state \<Rightarrow> state" where
  "start_playback s =
     (emit [Pause_Audio_Device (playback_deviceid s) False, Stdout ''Playing...\<newline>'']
        (s\<lparr>buffer_byte_position := 0\<rparr>))
       \<lparr>recording_state := PLAYBACK\<rparr>"

text \<open>Lines 481 to 521 and the label \<open>CLOSE\<close>: what \<open>main\<close> does after \<open>handle_command\<close>.\<close>

definition record_session :: "platform \<Rightarrow> state \<Rightarrow> outcome option" where
  "record_session plat s =
     (if recording_state s = RECORDING then
        (case recording_loop (capture_stream plat) s of
           None \<Rightarrow> None
         | Some s1 \<Rightarrow>
             (case playback_loop (playback_requests plat) (start_playback s1) of
                None \<Rightarrow> None
              | Some (outs, s2) \<Rightarrow>
                  Some \<lparr>exit_code = 0, played = outs, final = close s2\<rparr>))
      else Some \<lparr>exit_code = - 1, played = [], final = close s\<rparr>)"

text \<open>The loop of lines 452 to 468, one iteration for each \<open>i\<close> of 2, 3, 4.\<close>

definition scan_argument ::
  "string list \<Rightarrow> ArgCmdRecord \<times> Uint32 \<Rightarrow> nat \<Rightarrow> ArgCmdRecord \<times> Uint32" where
  "scan_argument argv acc i =
     (if strncmp (argv ! i) ''-k'' 2 = 0 \<or> strncmp (argv ! i) ''--key'' 5 = 0 then
        ((fst acc)\<lparr>key := take 4 (argv ! (i + 1))\<rparr>, snd acc OR 1)
      else if strncmp (argv ! i) ''-d'' 2 = 0 \<or> strncmp (argv ! i) ''--device'' 8 = 0 then
        ((fst acc)\<lparr>device := int_of_long (strtol (argv ! (i + 1)))\<rparr>, snd acc OR 2)
      else acc)"

definition scan_arguments :: "platform \<Rightarrow> string list \<Rightarrow> ArgCmdRecord \<times> Uint32" where
  "scan_arguments plat argv =
     foldl (scan_argument argv) (\<lparr>key = [], device = indeterminate_int plat\<rparr>, 0) [2 ..< 5]"

text \<open>The label \<open>RECORD_PRINT_ERROR\<close>.\<close>

definition record_print_error :: "state \<Rightarrow> outcome" where
  "record_print_error s =
     \<lparr>exit_code = - 1, played = [],
      final = close (emit
        [Stderr ''Not enough arguments\<newline>'',
         Stderr ''Usage voicememo record -k|--key <KEY> -d|--device <INDEX>\<newline>'',
         Stderr ''\<newline>'',
         Stderr ''Record voice memo with KEY by using INDEX recording device\<newline>'',
         Stderr ''KEY will only be accepted up to 4 characters\<newline>''] s)\<rparr>"

text \<open>\<open>main(argc, argv)\<close>, with \<open>argc\<close> the length of \<open>argv\<close>.\<close>

definition main :: "platform \<Rightarrow> string list \<Rightarrow> outcome option" where
  "main plat argv =
     (if SDL_Init_result plat < 0 then
        Some \<lparr>exit_code = - 1, played = [],
              final = emit [Stderr (''[Error] Failed to init: '' @ SDL_GetError plat
                                    @ ''\<newline>'')] (initial_state plat)\<rparr>
      else
        (let s = snd (init plat (initial_state plat))
         in if \<not> fst (init plat (initial_state plat)) then
              Some \<lparr>exit_code = 0, played = [],
                    final = close (emit [Stderr ''[Error] Failed to init\<newline>''] s)\<rparr>
            else if length argv < 2 then
              Some \<lparr>exit_code = - 1, played = [],
                    final = close (emit [Stderr ''Usage voicememo <command> [options]\<newline>'',
                                         Stderr ''Try voicememo help\<newline>''] s)\<rparr>
            else if strncmp (argv ! 1) ''show'' 4 = 0 then
              Some \<lparr>exit_code = 0, played = [],
                    final = close (handle_command plat CMDTYPE_SHOW No_Data s)\<rparr>
            else if strncmp (argv ! 1) ''listen'' 6 = 0 then
              (if length argv < 3 then
                 Some \<lparr>exit_code = - 1, played = [],
                       final = close (emit [Stderr ''Not enough arguments\<newline>'',
                                            Stderr ''Usage voicememo listen <KEY>\<newline>''] s)\<rparr>
               else
                 Some \<lparr>exit_code = 0, played = [],
                       final = close (handle_command plat CMDTYPE_LISTEN
                                        (Key_Data (argv ! 2)) s)\<rparr>)
            else if strncmp (argv ! 1) ''record'' 6 = 0 then
              (if length argv < 6 then Some (record_print_error s)
               else if snd (scan_arguments plat argv) AND 3 \<noteq> 3 then
                 Some (record_print_error s)
               else
                 record_session plat
                   (handle_command plat CMDTYPE_RECORD
                      (Record_Data (fst (scan_arguments plat argv))) s))
            else if strncmp (argv ! 1) ''help'' 4 = 0 then
              Some \<lparr>exit_code = 0, played = [],
                    final = close (handle_command plat CMDTYPE_HELP No_Data s)\<rparr>
            else
              Some \<lparr>exit_code = - 1, played = [],
                    final = close (emit [Stderr ''[Error] Unrecognized command\<newline>''] s)\<rparr>))"

subsection \<open>A concrete run\<close>

text \<open>
  A machine with three capture devices whose devices open with the format the program asks
  for (44100 Hz, 2 channels, 32-bit float) and deliver 4096 sample frames, that is 32768
  bytes, in each callback. Memory holds the byte \<open>0xAA\<close> everywhere before the program
  runs; \<open>example_recording\<close> is the state after \<open>record -k AB -d 0\<close> has opened the devices.
\<close>

definition example_spec :: SDL_AudioSpec where
  "example_spec = \<lparr>freq = 44100, format = AUDIO_F32, channels = 2, samples = 4096\<rparr>"

definition example_chunk :: "Uint8 list" where
  "example_chunk = replicate 32768 0x55"

definition example_platform :: platform where
  "example_platform =
     \<lparr>SDL_Init_result = 0,
      SDL_GetError = '''',
      SDL_GetNumAudioDevices_capture = 3,
      SDL_GetAudioDeviceName_capture =
        (\<lambda>i. if 0 \<le> i \<and> i < 3 then Some ''Microphone'' else None),
      open_capture_device = (\<lambda>i. (2, example_spec)),
      open_playback_device = (3, example_spec),
      calloc_address = 4096,
      memory_contents = (\<lambda>a. 0xAA),
      indeterminate_int = 12345,
      capture_stream = replicate 54 [example_chunk],
      playback_requests = replicate 54 [32768]\<rparr>"

definition example_started :: state where
  "example_started = snd (init example_platform (initial_state example_platform))"

definition example_recording :: state where
  "example_recording =
     handle_command example_platform CMDTYPE_RECORD (Record_Data \<lparr>key = ''AB'', device = 0\<rparr>)
       example_started"

definition example_recorded :: state where
  "example_recorded = update (recording_callbacks (replicate 54 example_chunk) example_recording)"

definition example_playing :: state where
  "example_playing = start_playback example_recorded"

text \<open>
  A machine with seven capture devices, and one with none. \<open>hide_devices_above\<close> replaces
  what the platform answers about the capture devices of index 5 and more by anything
  else: their names by \<open>names'\<close> and the result of opening them by \<open>open'\<close>.
\<close>

definition crowded_platform :: platform where
  "crowded_platform =
     example_platform
       \<lparr>SDL_GetNumAudioDevices_capture := 7,
        SDL_GetAudioDeviceName_capture :=
          (\<lambda>i. if 0 \<le> i \<and> i < 7 then Some ''Microphone'' else None)\<rparr>"

definition silent_platform :: platform where
  "silent_platform = example_platform\<lparr>SDL_GetNumAudioDevices_capture := 0\<rparr>"

definition hide_devices_above ::
  "(int \<Rightarrow> string option) \<Rightarrow> (int \<Rightarrow> Uint32 \<times> SDL_AudioSpec) \<Rightarrow> platform \<Rightarrow> platform" where
  "hide_devices_above names' open' plat =
     plat\<lparr>SDL_GetAudioDeviceName_capture :=
            (\<lambda>i. if i < 5 then SDL_GetAudioDeviceName_capture plat i else names' i),
          open_capture_device :=
            (\<lambda>i. if i < 5 then open_capture_device plat i else open' i)\<rparr>"

text \<open>
  Two late controllers: \<open>example_full\<close> is the recording after 64 callbacks with no
  \<open>update\<close> having stopped it (ten more than the 54 that cross the maximum position), and
  \<open>example_played_late\<close> the playback after 64 callbacks, likewise.
\<close>

definition example_full :: state where
  "example_full = recording_callbacks (replicate 64 example_chunk) example_recording"

definition example_played_late :: state where
  "example_played_late = snd (playback_callbacks (replicate 64 32768) example_playing)"

text \<open>
  A run small enough to follow by hand: the devices open with one byte per second (1 Hz,
  one channel, 8-bit samples), so the buffer has 6 bytes and the maximum position is 5.
  The capture thread delivers three bytes before each of the first two calls of \<open>update\<close>,
  the playback thread asks for two bytes before each call.
\<close>

definition tiny_spec :: SDL_AudioSpec where
  "tiny_spec = \<lparr>freq = 1, format = 0x0008, channels = 1, samples = 3\<rparr>"

definition tiny_platform :: platform where
  "tiny_platform =
     example_platform
       \<lparr>open_capture_device := (\<lambda>i. (2, tiny_spec)),
        open_playback_device := (3, tiny_spec),
        capture_stream := [[[1, 2, 3]], [[4, 5, 6]]],
        playback_requests := [[2], [2], [2]]\<rparr>"

definition tiny_recording :: state where
  "tiny_recording =
     handle_command tiny_platform CMDTYPE_RECORD (Record_Data \<lparr>key = ''AB'', device = 0\<rparr>)
       (snd (init tiny_platform (initial_state tiny_platform)))"

section \<open>Basic facts\<close>

subsection \<open>What the callbacks change\<close>

lemma audio_recording_callback_fields:
  "buffer_byte_position (audio_recording_callback stream s)
     = buffer_byte_position s + of_nat (length stream)"
  "buffer_byte_size (audio_recording_callback stream s) = buffer_byte_size s"
  "buffer_byte_max_position (audio_recording_callback stream s) = buffer_byte_max_position s"
  "recording_buffer (audio_recording_callback stream s) = recording_buffer s"
  "recording_state (audio_recording_callback stream s) = recording_state s"
  "recording_deviceid (audio_recording_callback stream s) = recording_deviceid s"
  "playback_deviceid (audio_recording_callback stream s) = playback_deviceid s"
  "trace (audio_recording_callback stream s) = trace s"
  by (simp_all add: audio_recording_callback_def)

lemma recording_callbacks_fields:
  "buffer_byte_position (recording_callbacks streams s)
     = buffer_byte_position s + of_nat (length (concat streams))"
  "buffer_byte_size (recording_callbacks streams s) = buffer_byte_size s"
  "buffer_byte_max_position (recording_callbacks streams s) = buffer_byte_max_position s"
  "recording_buffer (recording_callbacks streams s) = recording_buffer s"
  "recording_state (recording_callbacks streams s) = recording_state s"
  "recording_deviceid (recording_callbacks streams s) = recording_deviceid s"
  "playback_deviceid (recording_callbacks streams s) = playback_deviceid s"
  "trace (recording_callbacks streams s) = trace s"
  by (induction streams arbitrary: s; simp add: audio_recording_callback_fields)+

lemma audio_playback_callback_fields:
  "fst (audio_playback_callback len s)
     = memcpy_from (heap s) (recording_buffer s + unat (buffer_byte_position s)) len"
  "buffer_byte_position (snd (audio_playback_callback len s))
     = buffer_byte_position s + of_nat len"
  "buffer_byte_size (snd (audio_playback_callback len s)) = buffer_byte_size s"
  "buffer_byte_max_position (snd (audio_playback_callback len s)) = buffer_byte_max_position s"
  "recording_buffer (snd (audio_playback_callback len s)) = recording_buffer s"
  "recording_state (snd (audio_playback_callback len s)) = recording_state s"
  "recording_deviceid (snd (audio_playback_callback len s)) = recording_deviceid s"
  "playback_deviceid (snd (audio_playback_callback len s)) = playback_deviceid s"
  "heap (snd (audio_playback_callback len s)) = heap s"
  "trace (snd (audio_playback_callback len s)) = trace s"
  by (simp_all add: audio_playback_callback_def)

lemma playback_callbacks_fields:
  "buffer_byte_position (snd (playback_callbacks lens s))
     = buffer_byte_position s + of_nat (sum_list lens)"
  "buffer_byte_size (snd (playback_callbacks lens s)) = buffer_byte_size s"
  "buffer_byte_max_position (snd (playback_callbacks lens s)) = buffer_byte_max_position s"
  "recording_buffer (snd (playback_callbacks lens s)) = recording_buffer s"
  "recording_state (snd (playback_callbacks lens s)) = recording_state s"
  "recording_deviceid (snd (playback_callbacks lens s)) = recording_deviceid s"
  "playback_deviceid (snd (playback_callbacks lens s)) = playback_deviceid s"
  "heap (snd (playback_callbacks lens s)) = heap s"
  "trace (snd (playback_callbacks lens s)) = trace s"
  by (induction lens arbitrary: s; simp add: audio_playback_callback_fields split_beta Let_def)+

subsection \<open>The concrete run, evaluated\<close>

lemma bytes_per_second_example: "bytes_per_second example_spec = 352800"
  by (simp add: bytes_per_second_def bytes_per_sample_def example_spec_def
      SDL_AUDIO_BITSIZE_def AUDIO_F32_def)

lemma example_platform_fields:
  "SDL_Init_result example_platform = 0"
  "SDL_GetNumAudioDevices_capture example_platform = 3"
  "open_capture_device example_platform i = (2, example_spec)"
  "open_playback_device example_platform = (3, example_spec)"
  "calloc_address example_platform = 4096"
  "memory_contents example_platform = (\<lambda>a. 0xAA)"
  "indeterminate_int example_platform = 12345"
  "capture_stream example_platform = replicate 54 [example_chunk]"
  "playback_requests example_platform = replicate 54 [32768]"
  by (simp_all add: example_platform_def)

lemma example_started_fields:
  "fst (init example_platform (initial_state example_platform)) = True"
  "available_recording_device_count example_started = 3"
  "recording_state example_started = SELECTING_DEVICE"
  "recording_buffer example_started = 0"
  "heap example_started = (\<lambda>a. 0xAA)"
  "trace example_started = []"
  by (simp_all add: example_started_def init_def example_platform_fields initial_state_def
      MAX_RECORDING_DEVICES_def Let_def emit_def)

lemma example_recording_fields:
  "recording_state example_recording = RECORDING"
  "buffer_byte_position example_recording = 0"
  "buffer_byte_max_position example_recording = 1764000"
  "buffer_byte_size example_recording = 2116800"
  "recording_buffer example_recording = 4096"
  "recording_deviceid example_recording = 2"
  "playback_deviceid example_recording = 3"
  "heap example_recording = zero_fill (\<lambda>a. 0xAA) 4096 2116800"
  unfolding example_recording_def handle_command_def handle_record_def key_press_switch_def
  by (simp_all add: Let_def emit_def example_started_fields example_platform_fields
      bytes_per_second_example RECORDING_BUFFER_SECONDS_def MAX_RECORDING_SECONDS_def)

lemma length_concat_replicate: "length (concat (replicate n xs)) = n * length xs"
  by (induction n) simp_all

lemma length_example_chunks: "length (concat (replicate n example_chunk)) = n * 32768"
  by (simp add: length_concat_replicate example_chunk_def)

lemma example_recorded_fields:
  "recording_state example_recorded = RECORDED"
  "buffer_byte_position example_recorded = 1769472"
  "buffer_byte_max_position example_recorded = 1764000"
  "buffer_byte_size example_recorded = 2116800"
  "recording_buffer example_recorded = 4096"
  "recording_deviceid example_recorded = 2"
  "playback_deviceid example_recorded = 3"
  by (simp_all add: example_recorded_def update_def recording_callbacks_fields
      example_recording_fields length_example_chunks emit_def)

lemma example_playing_fields:
  "recording_state example_playing = PLAYBACK"
  "buffer_byte_position example_playing = 0"
  "buffer_byte_max_position example_playing = 1764000"
  "buffer_byte_size example_playing = 2116800"
  "recording_buffer example_playing = 4096"
  "recording_deviceid example_playing = 2"
  "playback_deviceid example_playing = 3"
  by (simp_all add: example_playing_def start_playback_def emit_def example_recorded_fields)

subsection \<open>The arithmetic of the buffer sizing\<close>

lemma unat_ucast_8_32: "unat (ucast (x :: 8 word) :: 32 word) = unat x"
  using unsigned_less [of x, where 'a = nat]
  by (simp add: unsigned_ucast_eq take_bit_nat_eq_self)

lemma unat_ucast_16_32: "unat (ucast (x :: 16 word) :: 32 word) = unat x"
  using unsigned_less [of x, where 'a = nat]
  by (simp add: unsigned_ucast_eq take_bit_nat_eq_self)

lemma bitsize_le: "unat (SDL_AUDIO_BITSIZE x) \<le> 255"
  unfolding SDL_AUDIO_BITSIZE_def
  using word_and_le1 [of x "0xFF"] by (simp add: word_le_nat_alt)

text \<open>A sample frame has at most 255 channels of at most 31 bytes: no overflow here.\<close>

lemma unat_bytes_per_sample:
  "unat (bytes_per_sample spec)
     = unat (channels spec) * (unat (SDL_AUDIO_BITSIZE (format spec)) div 8)"
proof -
  have c: "unat (channels spec) < 256"
    using unsigned_less [of "channels spec", where 'a = nat] by simp
  have b: "unat (SDL_AUDIO_BITSIZE (format spec)) div 8 \<le> 31"
    using bitsize_le [of "format spec"] by simp
  have d: "unat (ucast (SDL_AUDIO_BITSIZE (format spec)) div 8 :: 32 word)
             = unat (SDL_AUDIO_BITSIZE (format spec)) div 8"
    by (simp add: unat_div unat_ucast_16_32)
  have "unat (channels spec) * (unat (SDL_AUDIO_BITSIZE (format spec)) div 8) \<le> 255 * 31"
    using c b by (intro mult_le_mono) simp_all
  then have "unat (ucast (channels spec) :: 32 word)
               * unat (ucast (SDL_AUDIO_BITSIZE (format spec)) div 8 :: 32 word) < 2 ^ LENGTH(32)"
    by (simp add: d unat_ucast_8_32)
  then show ?thesis
    unfolding bytes_per_sample_def
    by (simp add: unat_mult_lem [THEN iffD1] d unat_ucast_8_32)
qed

lemma unat_word_of_int_nonneg:
  "0 \<le> i \<Longrightarrow> i < 2 ^ 32 \<Longrightarrow> unat (word_of_int i :: 32 word) = nat i"
  by (simp add: unsigned_of_int take_bit_int_eq_self)

lemma unat_bytes_per_second:
  assumes "0 \<le> freq spec" and "nat (freq spec) * unat (bytes_per_sample spec) < 2 ^ 32"
  shows "unat (bytes_per_second spec) = nat (freq spec) * unat (bytes_per_sample spec)"
proof (cases "bytes_per_sample spec = 0")
  case True
  then show ?thesis by (simp add: bytes_per_second_def)
next
  case False
  then have "unat (bytes_per_sample spec) \<ge> 1"
    by (simp add: unat_gt_0 Suc_leI)
  then have "nat (freq spec) \<le> nat (freq spec) * unat (bytes_per_sample spec)"
    by simp
  then have "nat (freq spec) < 2 ^ 32" using assms(2) by linarith
  then have f: "unat (word_of_int (freq spec) :: 32 word) = nat (freq spec)"
    using assms(1) by (simp add: unat_word_of_int_nonneg)
  have "unat (word_of_int (freq spec) :: 32 word) * unat (bytes_per_sample spec) < 2 ^ LENGTH(32)"
    using assms(2) by (simp add: f)
  then show ?thesis
    unfolding bytes_per_second_def by (simp add: unat_mult_lem [THEN iffD1] f)
qed

subsection \<open>A record command whose two devices open\<close>

lemma handle_command_record_opens:
  assumes "device param < available_recording_device_count s"
    and "fst (open_capture_device plat (device param)) \<noteq> 0"
    and "fst (open_playback_device plat) \<noteq> 0"
  shows "buffer_byte_size (handle_command plat CMDTYPE_RECORD (Record_Data param) s)
           = RECORDING_BUFFER_SECONDS
               * bytes_per_second (snd (open_capture_device plat (device param)))"
    and "buffer_byte_max_position (handle_command plat CMDTYPE_RECORD (Record_Data param) s)
           = MAX_RECORDING_SECONDS
               * bytes_per_second (snd (open_capture_device plat (device param)))"
    and "buffer_byte_position (handle_command plat CMDTYPE_RECORD (Record_Data param) s) = 0"
    and "recording_buffer (handle_command plat CMDTYPE_RECORD (Record_Data param) s)
           = calloc_address plat"
    and "heap (handle_command plat CMDTYPE_RECORD (Record_Data param) s)
           = zero_fill (heap s) (calloc_address plat)
               (unat (RECORDING_BUFFER_SECONDS
                        * bytes_per_second (snd (open_capture_device plat (device param)))))"
    and "recording_state (handle_command plat CMDTYPE_RECORD (Record_Data param) s) = RECORDING"
    and "recording_deviceid (handle_command plat CMDTYPE_RECORD (Record_Data param) s)
           = fst (open_capture_device plat (device param))"
    and "playback_deviceid (handle_command plat CMDTYPE_RECORD (Record_Data param) s)
           = fst (open_playback_device plat)"
    and "received_recording_spec (handle_command plat CMDTYPE_RECORD (Record_Data param) s)
           = snd (open_capture_device plat (device param))"
  using assms
  unfolding handle_command_def handle_record_def key_press_switch_def
  by (simp_all add: Let_def emit_def)

subsection \<open>init, and the commands after it\<close>

lemma init_result:
  "fst (init plat s) = (1 \<le> SDL_GetNumAudioDevices_capture plat)"
  "1 \<le> SDL_GetNumAudioDevices_capture plat \<Longrightarrow>
     snd (init plat s) =
       s\<lparr>available_recording_device_count := min (SDL_GetNumAudioDevices_capture plat) 5,
         available_device_names :=
           Some (map (device_entry plat) [0 .. min (SDL_GetNumAudioDevices_capture plat) 5 - 1])\<rparr>"
  "\<not> 1 \<le> SDL_GetNumAudioDevices_capture plat \<Longrightarrow>
     snd (init plat s) =
       emit [Stderr (''[Error] Unable to get audio capture device! '' @ SDL_GetError plat
                     @ ''\<newline>'')]
         (s\<lparr>available_recording_device_count := SDL_GetNumAudioDevices_capture plat\<rparr>)"
  by (auto simp: init_def Let_def MAX_RECORDING_DEVICES_def min_def emit_def)

lemma init_count_le: "available_recording_device_count (snd (init plat s)) \<le> 5"
  by (cases "1 \<le> SDL_GetNumAudioDevices_capture plat") (simp_all add: init_result emit_def)

lemma key_press_switch_id: "key_press_switch s = s"
  by (cases "recording_state s") (simp_all add: key_press_switch_def)

lemma handle_command_record_rejects:
  "available_recording_device_count s \<le> device param \<Longrightarrow>
     handle_command plat CMDTYPE_RECORD (Record_Data param) s =
       emit [Stdout ('': param key = '' @ key param @ ''\<newline>''),
             Stdout ('': param device = '' @ printf_d (device param) @ ''\<newline>'')] s"
  by (simp add: handle_command_def handle_record_def key_press_switch_id Let_def emit_def)

lemma handle_command_show:
  assumes "available_device_names s = Some (map f [0 .. available_recording_device_count s - 1])"
  shows "handle_command plat CMDTYPE_SHOW No_Data s =
           emit (map (\<lambda>i. case f i of None \<Rightarrow> Invalid_Pointer_Use
                              | Some n \<Rightarrow> Stdout (n @ ''\<newline>''))
                   [0 .. available_recording_device_count s - 1]) s"
proof -
  show ?thesis
    apply (simp add: handle_command_def key_press_switch_id
        print_all_available_device_names_def assms)
    apply (rule arg_cong [where f = "\<lambda>es. emit es s"])
    apply (rule map_cong [OF refl])
    apply (simp add: nth_upto)
    done
qed

lemma hide_fields:
  "SDL_Init_result (hide_devices_above n' o' plat) = SDL_Init_result plat"
  "SDL_GetError (hide_devices_above n' o' plat) = SDL_GetError plat"
  "SDL_GetNumAudioDevices_capture (hide_devices_above n' o' plat) = SDL_GetNumAudioDevices_capture plat"
  "open_playback_device (hide_devices_above n' o' plat) = open_playback_device plat"
  "calloc_address (hide_devices_above n' o' plat) = calloc_address plat"
  "memory_contents (hide_devices_above n' o' plat) = memory_contents plat"
  "indeterminate_int (hide_devices_above n' o' plat) = indeterminate_int plat"
  "capture_stream (hide_devices_above n' o' plat) = capture_stream plat"
  "playback_requests (hide_devices_above n' o' plat) = playback_requests plat"
  "i < 5 \<Longrightarrow> open_capture_device (hide_devices_above n' o' plat) i = open_capture_device plat i"
  "i < 5 \<Longrightarrow> device_entry (hide_devices_above n' o' plat) i = device_entry plat i"
  by (simp_all add: hide_devices_above_def device_entry_def)

lemma init_hide: "init (hide_devices_above n' o' plat) s = init plat s"
proof -
  have "map (device_entry (hide_devices_above n' o' plat)) [0 .. c - 1]
          = map (device_entry plat) [0 .. c - 1]" if "c \<le> 5" for c
    using that by (intro map_cong refl) (simp add: hide_fields)
  then show ?thesis
    by (simp add: init_def Let_def hide_fields MAX_RECORDING_DEVICES_def)
qed

lemma handle_record_hide:
  "available_recording_device_count s \<le> 5 \<Longrightarrow>
     handle_record (hide_devices_above n' o' plat) param s = handle_record plat param s"
  by (simp add: handle_record_def Let_def hide_fields emit_def)

lemma handle_command_hide:
  "available_recording_device_count s \<le> 5 \<Longrightarrow>
     handle_command (hide_devices_above n' o' plat) c d s = handle_command plat c d s"
  by (simp add: handle_command_def handle_record_hide split: cmd_data.splits)

lemma initial_state_hide: "initial_state (hide_devices_above n' o' plat) = initial_state plat"
  by (simp add: initial_state_def hide_fields)

lemma scan_arguments_hide:
  "scan_arguments (hide_devices_above n' o' plat) argv = scan_arguments plat argv"
  by (simp add: scan_arguments_def hide_fields)

lemma record_session_hide:
  "record_session (hide_devices_above n' o' plat) s = record_session plat s"
  by (simp add: record_session_def hide_fields cong: option.case_cong)

lemma main_hide: "main (hide_devices_above n' o' plat) argv = main plat argv"
  unfolding main_def
  by (simp add: init_hide hide_fields handle_command_hide init_count_le
      initial_state_hide scan_arguments_hide record_session_hide Let_def cong: if_cong)

lemma crowded_platform_fields:
  "SDL_GetNumAudioDevices_capture crowded_platform = 7"
  "SDL_Init_result crowded_platform = 0"
  by (simp_all add: crowded_platform_def example_platform_fields)

lemma silent_platform_fields:
  "SDL_GetNumAudioDevices_capture silent_platform = 0"
  "SDL_Init_result silent_platform = 0"
  by (simp_all add: silent_platform_def example_platform_fields)

lemma printf_d_6: "printf_d 6 = ''6''"
  by code_simp

subsection \<open>memcpy on the heap, and runs of callbacks\<close>

lemma memcpy_to_Nil: "memcpy_to h a [] = h"
  by (rule ext) (auto simp: memcpy_to_def)

lemma memcpy_to_append:
  "memcpy_to (memcpy_to h a xs) (a + length xs) ys = memcpy_to h a (xs @ ys)"
proof (rule ext)
  fix x
  consider "x < a" | "a \<le> x" "x < a + length xs" | "a + length xs \<le> x"
    by linarith
  then show "memcpy_to (memcpy_to h a xs) (a + length xs) ys x = memcpy_to h a (xs @ ys) x"
  proof cases
    case 1
    then show ?thesis by (simp add: memcpy_to_def)
  next
    case 2
    then have "x - a < length xs" by linarith
    with 2 show ?thesis by (simp add: memcpy_to_def nth_append)
  next
    case 3
    then have "\<not> x - a < length xs" and "x - (a + length xs) = x - a - length xs"
      by linarith+
    with 3 show ?thesis by (simp add: memcpy_to_def nth_append)
  qed
qed

lemma memcpy_to_outside:
  "x < a \<or> a + length bytes \<le> x \<Longrightarrow> memcpy_to h a bytes x = h x"
  by (auto simp: memcpy_to_def)

lemma memcpy_to_inside:
  "i < length bytes \<Longrightarrow> memcpy_to h a bytes (a + i) = bytes ! i"
  by (simp add: memcpy_to_def)

lemma length_memcpy_from: "length (memcpy_from h a n) = n"
  by (simp add: memcpy_from_def)

lemma nth_memcpy_from: "i < n \<Longrightarrow> memcpy_from h a n ! i = h (a + i)"
  by (simp add: memcpy_from_def)

lemma memcpy_from_add:
  "memcpy_from h a (n + m) = memcpy_from h a n @ memcpy_from h (a + n) m"
proof -
  have "[a ..< a + n + m] = [a ..< a + n] @ [a + n ..< a + n + m]"
    by (rule upt_add_eq_append) simp
  then show ?thesis
    unfolding memcpy_from_def by (simp only: map_append add.assoc)
qed

lemma memcpy_from_memcpy_to:
  "memcpy_from (memcpy_to h a bytes) a (length bytes) = bytes"
  by (rule nth_equalityI) (simp_all add: length_memcpy_from nth_memcpy_from memcpy_to_inside)

lemma unat_position_advance:
  "unat (p :: Uint32) + n < 2 ^ 32 \<Longrightarrow> unat (p + of_nat n) = unat p + n"
  by (simp add: unat_word_ariths unsigned_of_nat take_bit_nat_eq_self)

lemma recording_callbacks_heap:
  "unat (buffer_byte_position s) + length (concat streams) < 2 ^ 32 \<Longrightarrow>
     heap (recording_callbacks streams s)
       = memcpy_to (heap s) (recording_buffer s + unat (buffer_byte_position s)) (concat streams)"
proof (induction streams arbitrary: s)
  case Nil
  then show ?case by (simp add: memcpy_to_Nil)
next
  case (Cons stream rest)
  let ?a = "recording_buffer s + unat (buffer_byte_position s)"
  let ?s1 = "audio_recording_callback stream s"
  have p: "unat (buffer_byte_position s + of_nat (length stream))
             = unat (buffer_byte_position s) + length stream"
    using Cons.prems by (intro unat_position_advance) simp
  have p1: "unat (buffer_byte_position ?s1) = unat (buffer_byte_position s) + length stream"
    by (simp only: audio_recording_callback_fields p)
  have h1: "heap ?s1 = memcpy_to (heap s) ?a stream"
    by (simp add: audio_recording_callback_def)
  have "unat (buffer_byte_position ?s1) + length (concat rest) < 2 ^ 32"
    using Cons.prems by (simp only: p1) simp
  then have "heap (recording_callbacks rest ?s1)
          = memcpy_to (heap ?s1) (recording_buffer ?s1 + unat (buffer_byte_position ?s1))
              (concat rest)"
    by (rule Cons.IH)
  also have "\<dots> = memcpy_to (memcpy_to (heap s) ?a stream) (?a + length stream) (concat rest)"
    by (simp only: h1 p audio_recording_callback_fields add.assoc)
  also have "\<dots> = memcpy_to (heap s) ?a (stream @ concat rest)"
    by (rule memcpy_to_append)
  finally show ?case by simp
qed

lemma playback_callbacks_output:
  "unat (buffer_byte_position s) + sum_list lens < 2 ^ 32 \<Longrightarrow>
     concat (fst (playback_callbacks lens s))
       = memcpy_from (heap s) (recording_buffer s + unat (buffer_byte_position s)) (sum_list lens)"
proof (induction lens arbitrary: s)
  case Nil
  then show ?case by (simp add: memcpy_from_def)
next
  case (Cons len rest)
  let ?a = "recording_buffer s + unat (buffer_byte_position s)"
  let ?s1 = "snd (audio_playback_callback len s)"
  have p: "unat (buffer_byte_position s + of_nat len) = unat (buffer_byte_position s) + len"
    using Cons.prems by (intro unat_position_advance) simp
  have p1: "unat (buffer_byte_position ?s1) = unat (buffer_byte_position s) + len"
    by (simp only: audio_playback_callback_fields p)
  have "unat (buffer_byte_position ?s1) + sum_list rest < 2 ^ 32"
    using Cons.prems by (simp only: p1) simp
  then have "concat (fst (playback_callbacks rest ?s1))
          = memcpy_from (heap ?s1) (recording_buffer ?s1 + unat (buffer_byte_position ?s1))
              (sum_list rest)"
    by (rule Cons.IH)
  also have "\<dots> = memcpy_from (heap s) (?a + len) (sum_list rest)"
    by (simp only: p audio_playback_callback_fields add.assoc)
  finally have rest: "concat (fst (playback_callbacks rest ?s1))
          = memcpy_from (heap s) (?a + len) (sum_list rest)" .
  have "concat (fst (playback_callbacks (len # rest) s))
          = fst (audio_playback_callback len s) @ concat (fst (playback_callbacks rest ?s1))"
    by (simp add: split_beta Let_def)
  also have "\<dots> = memcpy_from (heap s) ?a len @ memcpy_from (heap s) (?a + len) (sum_list rest)"
    by (simp only: rest audio_playback_callback_fields)
  also have "\<dots> = memcpy_from (heap s) ?a (len + sum_list rest)"
    by (rule memcpy_from_add [symmetric])
  finally show ?case by simp
qed

lemma update_fields:
  "heap (update s) = heap s"
  "buffer_byte_position (update s) = buffer_byte_position s"
  "buffer_byte_size (update s) = buffer_byte_size s"
  "buffer_byte_max_position (update s) = buffer_byte_max_position s"
  "recording_buffer (update s) = recording_buffer s"
  "recording_deviceid (update s) = recording_deviceid s"
  "playback_deviceid (update s) = playback_deviceid s"
  by (simp_all add: update_def emit_def)

lemma start_playback_fields:
  "heap (start_playback s) = heap s"
  "buffer_byte_position (start_playback s) = 0"
  "buffer_byte_size (start_playback s) = buffer_byte_size s"
  "buffer_byte_max_position (start_playback s) = buffer_byte_max_position s"
  "recording_buffer (start_playback s) = recording_buffer s"
  "recording_deviceid (start_playback s) = recording_deviceid s"
  "playback_deviceid (start_playback s) = playback_deviceid s"
  "recording_state (start_playback s) = PLAYBACK"
  by (simp_all add: start_playback_def emit_def)

lemma size_bound: "unat (x :: Uint32) < 2 ^ 32"
  using unsigned_less [of x, where 'a = nat] by simp

subsection \<open>The late runs, evaluated\<close>

lemma example_full_fields:
  "unat (buffer_byte_size example_full) = 2116800"
  "unat (buffer_byte_position example_full) = 2097152"
  "buffer_byte_position example_full = 2097152"
  "recording_buffer example_full = 4096"
  "heap example_full
     = memcpy_to (zero_fill (\<lambda>a. 0xAA) 4096 2116800) 4096 (concat (replicate 64 example_chunk))"
proof -
  show "unat (buffer_byte_size example_full) = 2116800"
    "buffer_byte_position example_full = 2097152"
    "recording_buffer example_full = 4096"
    by (simp_all add: example_full_def recording_callbacks_fields example_recording_fields
        length_example_chunks)
  then show "unat (buffer_byte_position example_full) = 2097152" by simp
  have "unat (buffer_byte_position example_recording)
          + length (concat (replicate 64 example_chunk)) < 2 ^ 32"
    by (simp add: example_recording_fields length_example_chunks)
  then have "heap example_full
       = memcpy_to (heap example_recording)
           (recording_buffer example_recording + unat (buffer_byte_position example_recording))
           (concat (replicate 64 example_chunk))"
    unfolding example_full_def by (rule recording_callbacks_heap)
  then show "heap example_full
     = memcpy_to (zero_fill (\<lambda>a. 0xAA) 4096 2116800) 4096 (concat (replicate 64 example_chunk))"
    by (simp add: example_recording_fields)
qed

lemma memcpy_from_memcpy_to_within:
  assumes "p + length cs \<le> n"
  shows "memcpy_from (memcpy_to h (b + p) cs) b n
           = take p (memcpy_from h b n) @ cs @ drop (p + length cs) (memcpy_from h b n)"
proof (rule nth_equalityI)
  show "length (memcpy_from (memcpy_to h (b + p) cs) b n)
          = length (take p (memcpy_from h b n) @ cs @ drop (p + length cs) (memcpy_from h b n))"
    using assms by (simp add: length_memcpy_from)
next
  fix i
  assume "i < length (memcpy_from (memcpy_to h (b + p) cs) b n)"
  then have i: "i < n" by (simp add: length_memcpy_from)
  consider "i < p" | "p \<le> i" "i < p + length cs" | "p + length cs \<le> i"
    by linarith
  then show "memcpy_from (memcpy_to h (b + p) cs) b n ! i
               = (take p (memcpy_from h b n) @ cs @ drop (p + length cs) (memcpy_from h b n)) ! i"
  proof cases
    case 1
    then show ?thesis
      using i assms
      by (simp add: nth_memcpy_from nth_append length_memcpy_from memcpy_to_def)
  next
    case 2
    then have "i - p < length cs" by linarith
    with 2 show ?thesis
      using i assms
      by (simp add: nth_memcpy_from nth_append length_memcpy_from memcpy_to_def)
  next
    case 3
    then have "\<not> i - p < length cs" "\<not> i < p" "p + length cs + (i - p - length cs) = i"
      by linarith+
    with 3 show ?thesis
      using i assms
      by (simp add: nth_memcpy_from nth_append length_memcpy_from memcpy_to_def)
  qed
qed

lemma example_played_late_fields:
  "unat (buffer_byte_size example_played_late) = 2116800"
  "buffer_byte_position example_played_late = 2097152"
  "recording_buffer example_played_late = 4096"
  "heap example_played_late = heap example_recorded"
  by (simp_all add: example_played_late_def playback_callbacks_fields example_playing_fields
      sum_list_replicate)
     (simp add: example_playing_def start_playback_fields)

lemma example_recorded_heap:
  "heap example_recorded
     = memcpy_to (zero_fill (\<lambda>a. 0xAA) 4096 2116800) 4096 (concat (replicate 54 example_chunk))"
proof -
  have "unat (buffer_byte_position example_recording)
          + length (concat (replicate 54 example_chunk)) < 2 ^ 32"
    by (simp add: example_recording_fields length_example_chunks)
  then have "heap (recording_callbacks (replicate 54 example_chunk) example_recording)
       = memcpy_to (heap example_recording)
           (recording_buffer example_recording + unat (buffer_byte_position example_recording))
           (concat (replicate 54 example_chunk))"
    by (rule recording_callbacks_heap)
  then show ?thesis
    by (simp add: example_recorded_def update_fields example_recording_fields)
qed

lemma concat_example_chunks: "concat (replicate n example_chunk) = replicate (n * 32768) 0x55"
  by (induction n) (simp_all add: example_chunk_def replicate_add)

subsection \<open>The arguments of the record command\<close>

lemma strncmp_eq_0_iff: "strncmp a b n = 0 \<longleftrightarrow> take n a = take n b"
  by (induction a b n rule: strncmp.induct) auto

lemma upt_2_5: "[2 ..< 5] = [2, 3, 4 :: nat]"
  by (simp add: upt_rec)

lemma take_prefix_of_take:
  "take n x = y \<Longrightarrow> m \<le> n \<Longrightarrow> take m x = take m y"
  by (metis min.absorb1 take_take)

lemma device_flag_is_no_key_flag:
  assumes "strncmp x ''-d'' 2 = 0 \<or> strncmp x ''--device'' 8 = 0"
  shows "\<not> (strncmp x ''-k'' 2 = 0 \<or> strncmp x ''--key'' 5 = 0)"
proof -
  from assms have "take 2 x = ''-d'' \<or> take 8 x = ''--device''"
    by (simp add: strncmp_eq_0_iff)
  then have "take 2 x = ''-d'' \<or> take 2 x = ''--'' \<and> take 5 x = ''--dev''"
    using take_prefix_of_take [of 8 x "''--device''" 2]
      take_prefix_of_take [of 8 x "''--device''" 5] by auto
  moreover have "take 2 x = ''--''" if "take 5 x = ''--key''"
    using take_prefix_of_take [of 5 x "''--key''" 2] that by simp
  ultimately show ?thesis
    by (auto simp: strncmp_eq_0_iff)
qed

lemma key_flag_is_no_device_flag:
  assumes "strncmp x ''-k'' 2 = 0 \<or> strncmp x ''--key'' 5 = 0"
  shows "\<not> (strncmp x ''-d'' 2 = 0 \<or> strncmp x ''--device'' 8 = 0)"
  using assms device_flag_is_no_key_flag by blast

lemma strtol_no_digits: "strtol_digits v = [] \<Longrightarrow> strtol v = 0"
  by (simp add: strtol_def LONG_MIN_def LONG_MAX_def)

lemma int_of_long_0: "int_of_long 0 = 0"
  by (simp add: int_of_long_def)

lemma or_bits:
  "(0 :: Uint32) OR 1 = 1" "(0 :: Uint32) OR 2 = 2" "(1 :: Uint32) OR 1 = 1"
  "(1 :: Uint32) OR 2 = 3" "(2 :: Uint32) OR 1 = 3" "(2 :: Uint32) OR 2 = 2"
  "(3 :: Uint32) OR 1 = 3" "(3 :: Uint32) OR 2 = 3" "(3 :: Uint32) AND 3 = 3"
  by simp_all

lemma scan_arguments_key_then_device:
  assumes k: "strncmp a2 ''-k'' 2 = 0 \<or> strncmp a2 ''--key'' 5 = 0"
    and d: "strncmp a4 ''-d'' 2 = 0 \<or> strncmp a4 ''--device'' 8 = 0"
  shows "device (fst (scan_arguments plat (prog # cmd # a2 # a3 # a4 # a5 # extra)))
           = int_of_long (strtol a5)"
    and "snd (scan_arguments plat (prog # cmd # a2 # a3 # a4 # a5 # extra)) = 3"
    and "key (fst (scan_arguments plat (prog # cmd # a2 # a3 # a4 # a5 # extra)))
           = (if strncmp a3 ''-k'' 2 = 0 \<or> strncmp a3 ''--key'' 5 = 0
              then take 4 a4 else take 4 a3)"
  using k d device_flag_is_no_key_flag [OF d]
  by (auto simp: scan_arguments_def upt_2_5 scan_argument_def or_bits)

lemma take_2_eq_D: "take 2 x = [a, b] \<Longrightarrow> \<exists>r. x = a # b # r"
  by (cases x; cases "tl x") (auto simp: numeral_2_eq_2)

lemma strtol_digits_minus_letter:
  "\<not> isdigit c \<Longrightarrow> strtol_digits (CHR ''-'' # c # r) = []"
  by (simp add: strtol_digits_def isspace_def)

lemma strtol_key_flag:
  assumes "strncmp x ''-k'' 2 = 0 \<or> strncmp x ''--key'' 5 = 0"
  shows "strtol x = 0"
proof -
  have nk: "\<not> isdigit (CHR ''k'')" and nm: "\<not> isdigit (CHR ''-'')"
    by (simp_all add: isdigit_def)
  from assms have "take 2 x = ''-k'' \<or> take 5 x = ''--key''"
    by (simp add: strncmp_eq_0_iff)
  then consider (short) "take 2 x = [CHR ''-'', CHR ''k'']"
    | (long) "take 2 x = [CHR ''-'', CHR ''-'']"
    using take_prefix_of_take [of 5 x "''--key''" 2] by auto
  then have "strtol_digits x = []"
  proof cases
    case short
    then obtain r where "x = CHR ''-'' # CHR ''k'' # r"
      by (rule take_2_eq_D [THEN exE])
    then show ?thesis by (simp only: strtol_digits_minus_letter [OF nk])
  next
    case long
    then obtain r where "x = CHR ''-'' # CHR ''-'' # r"
      by (rule take_2_eq_D [THEN exE])
    then show ?thesis by (simp only: strtol_digits_minus_letter [OF nm])
  qed
  then show ?thesis by (rule strtol_no_digits)
qed

lemma scan_arguments_device_then_key:
  assumes d: "strncmp a2 ''-d'' 2 = 0 \<or> strncmp a2 ''--device'' 8 = 0"
    and k: "strncmp a4 ''-k'' 2 = 0 \<or> strncmp a4 ''--key'' 5 = 0"
    and v: "strtol a3 = 0"
  shows "device (fst (scan_arguments plat (prog # cmd # a2 # a3 # a4 # a5 # extra))) = 0"
    and "snd (scan_arguments plat (prog # cmd # a2 # a3 # a4 # a5 # extra)) = 3"
  using k d device_flag_is_no_key_flag [OF d] v strtol_key_flag [OF k]
  by (auto simp: scan_arguments_def upt_2_5 scan_argument_def or_bits int_of_long_0)

lemma handle_command_record_attempts_open:
  assumes "device param < available_recording_device_count s"
  shows "Open_Capture_Device (device param)
           \<in> set (trace (handle_command plat CMDTYPE_RECORD (Record_Data param) s))"
    and "recording_deviceid (handle_command plat CMDTYPE_RECORD (Record_Data param) s)
           = fst (open_capture_device plat (device param))"
    and "recording_state (handle_command plat CMDTYPE_RECORD (Record_Data param) s) = ERROR
         \<or> recording_state (handle_command plat CMDTYPE_RECORD (Record_Data param) s) = RECORDING"
    and "recording_state (handle_command plat CMDTYPE_RECORD (Record_Data param) s)
           \<noteq> SELECTING_DEVICE"
  using assms
  by (simp_all add: handle_command_def handle_record_def key_press_switch_id Let_def emit_def)

lemma record_is_no_other_command:
  assumes "strncmp cmd ''record'' 6 = 0"
  shows "strncmp cmd ''show'' 4 \<noteq> 0" and "strncmp cmd ''listen'' 6 \<noteq> 0"
proof -
  from assms have r: "take 6 cmd = ''record''" by (simp add: strncmp_eq_0_iff)
  then show "strncmp cmd ''listen'' 6 \<noteq> 0" by (simp add: strncmp_eq_0_iff)
  from take_prefix_of_take [OF r, of 4] show "strncmp cmd ''show'' 4 \<noteq> 0"
    by (simp add: strncmp_eq_0_iff)
qed

lemma main_record_command:
  assumes "strncmp cmd ''record'' 6 = 0"
    and "snd (scan_arguments plat (prog # cmd # a2 # a3 # a4 # a5 # extra)) AND 3 = 3"
    and "\<not> SDL_Init_result plat < 0"
    and "\<not> SDL_GetNumAudioDevices_capture plat < 1"
  shows "main plat (prog # cmd # a2 # a3 # a4 # a5 # extra)
           = record_session plat
               (handle_command plat CMDTYPE_RECORD
                  (Record_Data (fst (scan_arguments plat (prog # cmd # a2 # a3 # a4 # a5 # extra))))
                  (snd (init plat (initial_state plat))))"
  using assms record_is_no_other_command [OF assms(1)]
  by (simp add: main_def init_result(1) Let_def)

lemma strtol_examples:
  "int_of_long (strtol ''-1'') = - 1"
  "int_of_long (strtol ''99'') = 99"
  by (simp_all add: strtol_def strtol_digits_def strtol_negative_def isspace_def isdigit_def
      int_of_long_def LONG_MIN_def LONG_MAX_def)

lemma close_fields:
  "recording_state (close s) = recording_state s"
  "recording_buffer (close s) = recording_buffer s"
  "recording_deviceid (close s) = recording_deviceid s"
  by (simp_all add: close_def emit_def split: option.splits)

lemma close_trace:
  assumes "available_device_names s = Some names" and "None \<notin> set names"
  shows "trace (close s) = trace s @ [Quit]"
proof -
  have "(case e of None \<Rightarrow> [Invalid_Pointer_Use] | Some n \<Rightarrow> []) = []"
    if "e \<in> set (take k names)" for e k
  proof -
    from that have "e \<in> set names" by (rule in_set_takeD)
    with assms(2) have "e \<noteq> None" by (cases e) auto
    then show ?thesis by (cases e) simp_all
  qed
  then have "concat (map (\<lambda>e. case e of None \<Rightarrow> [Invalid_Pointer_Use] | Some n \<Rightarrow> [])
                      (take k names)) = []" for k
    by simp
  then show ?thesis
    by (simp add: close_def emit_def assms(1))
qed

lemma example_started_names:
  "\<exists>names. available_device_names example_started = Some names \<and> None \<notin> set names"
  by (auto simp: example_started_def init_result example_platform_fields device_entry_def
      example_platform_def)

lemma printf_d_examples: "printf_d 99 = ''99''" "printf_d (- 1) = ''-1''"
  by code_simp+

lemma init_fields:
  "recording_state (snd (init plat s)) = recording_state s"
  "recording_buffer (snd (init plat s)) = recording_buffer s"
  "recording_deviceid (snd (init plat s)) = recording_deviceid s"
  by (simp_all add: init_def Let_def emit_def)

subsection \<open>The two loops of main\<close>

lemma recording_callbacks_append:
  "recording_callbacks (xs @ ys) s = recording_callbacks ys (recording_callbacks xs s)"
  by (induction xs arbitrary: s) simp_all

lemma recording_callbacks_same_buffer:
  assumes "heap s = heap t" and "buffer_byte_position s = buffer_byte_position t"
    and "recording_buffer s = recording_buffer t"
  shows "heap (recording_callbacks xs s) = heap (recording_callbacks xs t)
         \<and> buffer_byte_position (recording_callbacks xs s)
             = buffer_byte_position (recording_callbacks xs t)
         \<and> recording_buffer (recording_callbacks xs s) = recording_buffer (recording_callbacks xs t)"
  using assms
proof (induction xs arbitrary: s t)
  case Nil
  then show ?case by simp
next
  case (Cons x xs)
  have "heap (audio_recording_callback x s) = heap (audio_recording_callback x t)"
    "buffer_byte_position (audio_recording_callback x s)
       = buffer_byte_position (audio_recording_callback x t)"
    "recording_buffer (audio_recording_callback x s) = recording_buffer (audio_recording_callback x t)"
    using Cons.prems by (simp_all add: audio_recording_callback_def)
  then show ?case
    using Cons.IH [of "audio_recording_callback x s" "audio_recording_callback x t"] by simp
qed

lemma recording_loop_result:
  "recording_loop sched s = Some s1 \<Longrightarrow>
     heap s1 = heap (recording_callbacks (recording_loop_streams sched s) s)
     \<and> buffer_byte_position s1
         = buffer_byte_position (recording_callbacks (recording_loop_streams sched s) s)
     \<and> recording_buffer s1 = recording_buffer s
     \<and> buffer_byte_size s1 = buffer_byte_size s
     \<and> recording_state s1 = RECORDED"
proof (induction sched arbitrary: s)
  case Nil
  then have "s1 = update s" and "recording_state s1 = RECORDED"
    by (auto simp: Let_def split: if_splits)
  then show ?case
    by (simp add: update_fields)
next
  case (Cons streams rest)
  let ?t = "update (recording_callbacks streams s)"
  show ?case
  proof (cases "recording_state ?t = RECORDED")
    case True
    with Cons.prems have "s1 = ?t" by (simp add: Let_def)
    with True show ?thesis
      by (simp add: Let_def update_fields recording_callbacks_fields)
  next
    case False
    with Cons.prems have loop: "recording_loop rest ?t = Some s1" by (simp add: Let_def)
    have same: "heap (recording_callbacks xs ?t)
                  = heap (recording_callbacks xs (recording_callbacks streams s))
                \<and> buffer_byte_position (recording_callbacks xs ?t)
                    = buffer_byte_position (recording_callbacks xs (recording_callbacks streams s))
                \<and> recording_buffer (recording_callbacks xs ?t)
                    = recording_buffer (recording_callbacks xs (recording_callbacks streams s))"
      for xs
      by (rule recording_callbacks_same_buffer) (simp_all add: update_fields)
    from Cons.IH [OF loop] False show ?thesis
      by (simp add: Let_def same recording_callbacks_append update_fields
          recording_callbacks_fields)
  qed
qed

lemma playback_callbacks_append:
  "playback_callbacks (xs @ ys) s =
     (fst (playback_callbacks xs s) @ fst (playback_callbacks ys (snd (playback_callbacks xs s))),
      snd (playback_callbacks ys (snd (playback_callbacks xs s))))"
  by (induction xs arbitrary: s) (simp_all add: split_beta Let_def)

lemma playback_callbacks_same_buffer:
  assumes "heap s = heap t" and "buffer_byte_position s = buffer_byte_position t"
    and "recording_buffer s = recording_buffer t"
  shows "fst (playback_callbacks lens s) = fst (playback_callbacks lens t)"
  using assms
proof (induction lens arbitrary: s t)
  case Nil
  then show ?case by simp
next
  case (Cons len lens)
  have "fst (playback_callbacks lens (snd (audio_playback_callback len s)))
          = fst (playback_callbacks lens (snd (audio_playback_callback len t)))"
    using Cons.prems by (intro Cons.IH) (simp_all add: audio_playback_callback_fields)
  then show ?case
    using Cons.prems by (simp add: split_beta Let_def audio_playback_callback_fields)
qed

lemma map_length_playback_callbacks:
  "map length (fst (playback_callbacks lens s)) = lens"
  by (induction lens arbitrary: s)
     (simp_all add: split_beta Let_def audio_playback_callback_fields length_memcpy_from)

lemma playback_loop_result:
  "playback_loop reqs s = Some (outs, s2) \<Longrightarrow>
     outs = fst (playback_callbacks (map length outs) s)"
proof (induction reqs arbitrary: s outs)
  case Nil
  then show ?case by (simp add: Let_def split: if_splits)
next
  case (Cons lens rest)
  let ?o = "fst (playback_callbacks lens s)"
  let ?s0 = "snd (playback_callbacks lens s)"
  let ?t = "update ?s0"
  have first: "fst (playback_callbacks (map length ?o) s) = ?o"
    "snd (playback_callbacks (map length ?o) s) = ?s0"
    by (simp_all add: map_length_playback_callbacks)
  show ?case
  proof (cases "recording_state ?t = RECORDED")
    case True
    with Cons.prems have "outs = ?o" by (simp add: split_beta Let_def)
    then show ?thesis by (simp add: first)
  next
    case False
    with Cons.prems obtain later where loop: "playback_loop rest ?t = Some (later, s2)"
      and outs: "outs = ?o @ later"
      by (auto simp: split_beta Let_def split: option.splits)
    from Cons.IH [OF loop] have "later = fst (playback_callbacks (map length later) ?t)" .
    also have "\<dots> = fst (playback_callbacks (map length later) ?s0)"
      by (rule playback_callbacks_same_buffer) (simp_all add: update_fields)
    finally have later: "later = fst (playback_callbacks (map length later) ?s0)" .
    have "fst (playback_callbacks (map length ?o @ map length later) s) = ?o @ later"
      unfolding playback_callbacks_append
      by (simp only: fst_conv first later [symmetric])
    then show ?thesis by (simp add: outs)
  qed
qed

lemma callbacks_round_trip:
  assumes "buffer_byte_position s = 0"
    and "length (concat streams) \<le> unat (buffer_byte_size s)"
    and "sum_list lens = length (concat streams)"
  shows "concat (fst (playback_callbacks lens
                        (start_playback (update (recording_callbacks streams s)))))
           = concat streams"
proof -
  have small: "length (concat streams) < 2 ^ 32"
    using assms(2) size_bound [of "buffer_byte_size s"] by linarith
  let ?s1 = "recording_callbacks streams s"
  let ?s2 = "start_playback (update ?s1)"
  have "heap ?s1 = memcpy_to (heap s) (recording_buffer s + unat (buffer_byte_position s))
                     (concat streams)"
    using small by (intro recording_callbacks_heap) (simp add: assms(1))
  then have h: "heap ?s2 = memcpy_to (heap s) (recording_buffer s) (concat streams)"
    by (simp add: start_playback_fields update_fields assms(1))
  have b: "recording_buffer ?s2 = recording_buffer s"
    by (simp add: start_playback_fields update_fields recording_callbacks_fields)
  have z: "unat (buffer_byte_position ?s2) = 0"
    by (simp add: start_playback_fields)
  have "unat (buffer_byte_position ?s2) + sum_list lens < 2 ^ 32"
    using small by (simp add: z assms(3))
  then have "concat (fst (playback_callbacks lens ?s2))
          = memcpy_from (heap ?s2) (recording_buffer ?s2 + unat (buffer_byte_position ?s2))
              (sum_list lens)"
    by (rule playback_callbacks_output)
  also have "\<dots> = memcpy_from (memcpy_to (heap s) (recording_buffer s) (concat streams))
                       (recording_buffer s) (length (concat streams))"
    by (simp only: h b z assms(3) add_0_right)
  also have "\<dots> = concat streams"
    by (rule memcpy_from_memcpy_to)
  finally show ?thesis .
qed

lemma loops_round_trip:
  assumes "recording_loop sched s = Some s1"
    and "playback_loop reqs (start_playback s1) = Some (outs, s2)"
    and "buffer_byte_position s = 0"
    and "length (concat (recording_loop_streams sched s)) \<le> unat (buffer_byte_size s)"
    and "length (concat outs) = length (concat (recording_loop_streams sched s))"
  shows "concat outs = concat (recording_loop_streams sched s)"
proof -
  let ?w = "recording_loop_streams sched s"
  let ?p = "start_playback s1"
  have small: "length (concat ?w) < 2 ^ 32"
    using assms(4) size_bound [of "buffer_byte_size s"] by linarith
  have "heap (recording_callbacks ?w s)
          = memcpy_to (heap s) (recording_buffer s + unat (buffer_byte_position s)) (concat ?w)"
    using small by (intro recording_callbacks_heap) (simp add: assms(3))
  then have h: "heap ?p = memcpy_to (heap s) (recording_buffer s) (concat ?w)"
    using recording_loop_result [OF assms(1)]
    by (simp add: start_playback_fields assms(3))
  have b: "recording_buffer ?p = recording_buffer s"
    using recording_loop_result [OF assms(1)] by (simp add: start_playback_fields)
  have z: "unat (buffer_byte_position ?p) = 0"
    by (simp add: start_playback_fields)
  have n: "sum_list (map length outs) = length (concat ?w)"
    using assms(5) by (simp add: length_concat)
  have "unat (buffer_byte_position ?p) + sum_list (map length outs) < 2 ^ 32"
    using small by (simp add: z n)
  then have "concat (fst (playback_callbacks (map length outs) ?p))
          = memcpy_from (heap ?p) (recording_buffer ?p + unat (buffer_byte_position ?p))
              (sum_list (map length outs))"
    by (rule playback_callbacks_output)
  also have "\<dots> = memcpy_from (memcpy_to (heap s) (recording_buffer s) (concat ?w))
                       (recording_buffer s) (length (concat ?w))"
    by (simp only: h b z n add_0_right)
  also have "\<dots> = concat ?w"
    by (rule memcpy_from_memcpy_to)
  finally show ?thesis
    using playback_loop_result [OF assms(2)] by simp
qed

lemma tiny_platform_fields:
  "SDL_Init_result tiny_platform = 0"
  "SDL_GetNumAudioDevices_capture tiny_platform = 3"
  "open_capture_device tiny_platform i = (2, tiny_spec)"
  "open_playback_device tiny_platform = (3, tiny_spec)"
  "calloc_address tiny_platform = 4096"
  "memory_contents tiny_platform = (\<lambda>a. 0xAA)"
  "capture_stream tiny_platform = [[[1, 2, 3]], [[4, 5, 6]]]"
  "playback_requests tiny_platform = [[2], [2], [2]]"
  by (simp_all add: tiny_platform_def example_platform_fields)

lemma bytes_per_second_tiny: "bytes_per_second tiny_spec = 1"
  by (simp add: bytes_per_second_def bytes_per_sample_def tiny_spec_def SDL_AUDIO_BITSIZE_def)

lemma tiny_recording_fields:
  "recording_state tiny_recording = RECORDING"
  "buffer_byte_position tiny_recording = 0"
  "buffer_byte_max_position tiny_recording = 5"
  "buffer_byte_size tiny_recording = 6"
  "recording_buffer tiny_recording = 4096"
  "recording_deviceid tiny_recording = 2"
  "playback_deviceid tiny_recording = 3"
proof -
  have c: "device \<lparr>key = ''AB'', device = 0\<rparr>
             < available_recording_device_count (snd (init tiny_platform (initial_state tiny_platform)))"
    by (simp add: init_result tiny_platform_fields)
  note o = handle_command_record_opens
             [of "\<lparr>key = ''AB'', device = 0\<rparr>"
                 "snd (init tiny_platform (initial_state tiny_platform))" tiny_platform,
              folded tiny_recording_def]
  show "recording_state tiny_recording = RECORDING"
    "buffer_byte_position tiny_recording = 0"
    "buffer_byte_max_position tiny_recording = 5"
    "buffer_byte_size tiny_recording = 6"
    "recording_buffer tiny_recording = 4096"
    "recording_deviceid tiny_recording = 2"
    "playback_deviceid tiny_recording = 3"
    using c by (simp_all add: o tiny_platform_fields bytes_per_second_tiny
        RECORDING_BUFFER_SECONDS_def MAX_RECORDING_SECONDS_def)
qed

lemma tiny_recording_loop:
  "recording_loop (capture_stream tiny_platform) tiny_recording
     = Some (update (recording_callbacks [[4, 5, 6]]
               (update (recording_callbacks [[1, 2, 3]] tiny_recording))))"
  "recording_loop_streams (capture_stream tiny_platform) tiny_recording
     = [[1, 2, 3], [4, 5, 6]]"
  by (simp_all add: tiny_platform_fields Let_def update_def emit_def
      audio_recording_callback_def tiny_recording_fields)

lemma tiny_playback_loop:
  "\<exists>s2. playback_loop (playback_requests tiny_platform)
          (start_playback (update (recording_callbacks [[4, 5, 6]]
               (update (recording_callbacks [[1, 2, 3]] tiny_recording)))))
        = Some ([[1, 2], [3, 4], [5, 6]], s2)"
  by (simp add: tiny_platform_fields Let_def update_def emit_def start_playback_def
      audio_recording_callback_def audio_playback_callback_def tiny_recording_fields
      memcpy_from_def memcpy_to_def upt_rec)

lemma tiny_main:
  "\<exists>f. main tiny_platform [''voicememo'', ''record'', ''-k'', ''AB'', ''-d'', ''0'']
        = Some \<lparr>exit_code = 0, played = [[1, 2], [3, 4], [5, 6]], final = f\<rparr>"
proof -
  have k: "strncmp ''-k'' ''-k'' 2 = 0 \<or> strncmp ''-k'' ''--key'' 5 = 0"
    and d: "strncmp ''-d'' ''-d'' 2 = 0 \<or> strncmp ''-d'' ''--device'' 8 = 0"
    and nk: "\<not> (strncmp ''AB'' ''-k'' 2 = 0 \<or> strncmp ''AB'' ''--key'' 5 = 0)"
    and r: "strncmp ''record'' ''record'' 6 = 0"
    by (simp_all add: strncmp_eq_0_iff)
  note s = scan_arguments_key_then_device
              [OF k d, of tiny_platform "''voicememo''" "''record''" "''AB''" "''0''" "[]"]
  have v: "int_of_long (strtol ''0'') = 0"
    by (simp add: strtol_def strtol_digits_def strtol_negative_def isspace_def isdigit_def
        int_of_long_def LONG_MIN_def LONG_MAX_def)
  have arg: "fst (scan_arguments tiny_platform
                    [''voicememo'', ''record'', ''-k'', ''AB'', ''-d'', ''0''])
               = \<lparr>key = ''AB'', device = 0\<rparr>"
    using s nk by (intro ArgCmdRecord.equality) (simp_all add: v)
  have "main tiny_platform [''voicememo'', ''record'', ''-k'', ''AB'', ''-d'', ''0'']
          = record_session tiny_platform tiny_recording"
    using main_record_command [OF r, of tiny_platform "''voicememo''" "''-k''" "''AB''"
        "''-d''" "''0''" "[]"] s(2)
    by (simp add: arg tiny_platform_fields tiny_recording_def)
  moreover obtain s2 where "playback_loop (playback_requests tiny_platform)
          (start_playback (update (recording_callbacks [[4, 5, 6]]
               (update (recording_callbacks [[1, 2, 3]] tiny_recording)))))
        = Some ([[1, 2], [3, 4], [5, 6]], s2)"
    using tiny_playback_loop by blast
  ultimately show ?thesis
    by (simp add: record_session_def tiny_recording_fields tiny_recording_loop)
qed

subsection \<open>The device value, and the start of the recording\<close>





section \<open>The claims\<close>

subsection \<open>C3: when update ends a pass\<close>

text \<open>
  Claim C3. The program has no function \<open>isRecordingComplete\<close> or \<open>isPlaybackComplete\<close>:
  both are the test \<open>buffer_byte_position > buffer_byte_max_position\<close> inside \<open>update\<close>
  (the tick). In state \<open>RECORDING\<close> or \<open>PLAYBACK\<close>, \<open>update\<close> moves to \<open>RECORDED\<close> if and only
  if the cursor is strictly greater than \<open>buffer_byte_max_position\<close>, and exactly then it
  locks, pauses and unlocks the active device (the recording device while recording, the
  playback device while playing); at a cursor up to the maximum it only makes the
  comparison. In every other state \<open>update\<close> changes nothing. Counted in bytes from the
  start of a pass (fewer than \<open>2^32\<close>, the range of the cursor): the pass is complete if and
  only if the bytes appended, or played, exceed \<open>buffer_byte_max_position\<close>.
\<close>

theorem update_completes_iff_cursor_exceeds_max:
  "(recording_state s = RECORDING \<or> recording_state s = PLAYBACK \<longrightarrow>
      (recording_state (update s) = RECORDED
         \<longleftrightarrow> unat (buffer_byte_position s) > unat (buffer_byte_max_position s)) \<and>
      (trace (update s) =
         trace s @ [Compare_Position True,
                    Lock_Audio_Device (if recording_state s = RECORDING
                                       then recording_deviceid s else playback_deviceid s),
                    Pause_Audio_Device (if recording_state s = RECORDING
                                        then recording_deviceid s else playback_deviceid s) True,
                    Stdout (if recording_state s = RECORDING
                            then ''Recorded successfully\<newline>''
                            else ''Playback complete\<newline>''),
                    Unlock_Audio_Device (if recording_state s = RECORDING
                                         then recording_deviceid s else playback_deviceid s)]
         \<longleftrightarrow> unat (buffer_byte_position s) > unat (buffer_byte_max_position s)) \<and>
      (unat (buffer_byte_position s) \<le> unat (buffer_byte_max_position s) \<longrightarrow>
         update s = emit [Compare_Position False] s))
   \<and> (recording_state s \<noteq> RECORDING \<and> recording_state s \<noteq> PLAYBACK \<longrightarrow> update s = s)
   \<and> (recording_state s = RECORDING \<and> buffer_byte_position s = 0
        \<and> length (concat streams) < 2 ^ 32 \<longrightarrow>
        (recording_state (update (recording_callbacks streams s)) = RECORDED
           \<longleftrightarrow> length (concat streams) > unat (buffer_byte_max_position s)))
   \<and> (recording_state s = PLAYBACK \<and> buffer_byte_position s = 0
        \<and> sum_list lens < 2 ^ 32 \<longrightarrow>
        (recording_state (update (snd (playback_callbacks lens s))) = RECORDED
           \<longleftrightarrow> sum_list lens > unat (buffer_byte_max_position s)))"
  apply (intro conjI impI)
  subgoal by (auto simp: update_def emit_def word_less_nat_alt)
  subgoal by (auto simp: update_def emit_def word_less_nat_alt)
  subgoal by (auto simp: update_def emit_def word_less_nat_alt)
  subgoal by (auto simp: update_def)
  subgoal by (simp add: update_def emit_def recording_callbacks_fields word_less_nat_alt
        unsigned_of_nat take_bit_nat_eq_self)
  subgoal by (simp add: update_def emit_def playback_callbacks_fields word_less_nat_alt
        unsigned_of_nat take_bit_nat_eq_self)
  done

text \<open>
  The concrete run: 53 callbacks of 32768 bytes (1736704 bytes) do not end the pass, the
  54th (1769472 bytes, more than 1764000) does, for recording and for playback alike.
\<close>

theorem update_completes_iff_cursor_exceeds_max_witness:
  "update example_recording = emit [Compare_Position False] example_recording
   \<and> recording_state (update (recording_callbacks (replicate 54 example_chunk) example_recording))
       = RECORDED
   \<and> recording_state (update (recording_callbacks (replicate 53 example_chunk) example_recording))
       \<noteq> RECORDED
   \<and> update example_started = example_started
   \<and> recording_state (update (snd (playback_callbacks (replicate 54 32768) example_playing)))
       = RECORDED
   \<and> recording_state (update (snd (playback_callbacks (replicate 53 32768) example_playing)))
       \<noteq> RECORDED"
  using update_completes_iff_cursor_exceeds_max
          [of example_recording "replicate 54 example_chunk" "[]"]
    update_completes_iff_cursor_exceeds_max
          [of example_recording "replicate 53 example_chunk" "[]"]
    update_completes_iff_cursor_exceeds_max [of example_started "[]" "[]"]
    update_completes_iff_cursor_exceeds_max [of example_playing "[]" "replicate 54 32768"]
    update_completes_iff_cursor_exceeds_max [of example_playing "[]" "replicate 53 32768"]
  by (simp add: example_recording_fields example_started_fields example_playing_fields
      length_example_chunks sum_list_replicate)

subsection \<open>C4: the size of the buffer\<close>

text \<open>
  Claim C4. When a record command opens both devices, \<open>handle_command\<close> sizes the buffer
  from the spec SDL returned for the capture device: with
  \<open>bytes_per_second = freq * channels * (SDL_AUDIO_BITSIZE(format) / 8)\<close>, the maximum
  position is \<open>MAX_RECORDING_SECONDS = 5\<close> times and the buffer size
  \<open>RECORDING_BUFFER_SECONDS = 5 + 1\<close> times \<open>bytes_per_second\<close>, and every byte of the
  buffer is zero (\<open>calloc\<close>). The products are those of the integers as long as the largest,
  the buffer size, fits a C \<open>int\<close> (is below \<open>2^31\<close>). For 44100 Hz, 2 channels and 32-bit
  samples the three numbers are 352800, 1764000 and 2116800.
\<close>

theorem buffer_sizing_from_received_spec:
  assumes "device param < available_recording_device_count s"
    and "fst (open_capture_device plat (device param)) \<noteq> 0"
    and "fst (open_playback_device plat) \<noteq> 0"
    and "spec = snd (open_capture_device plat (device param))"
    and "s' = handle_command plat CMDTYPE_RECORD (Record_Data param) s"
    and "0 \<le> freq spec"
    and "6 * (nat (freq spec) * unat (channels spec)
                * (unat (SDL_AUDIO_BITSIZE (format spec)) div 8)) < 2 ^ 31"
  shows "unat (bytes_per_second spec)
           = nat (freq spec) * unat (channels spec)
               * (unat (SDL_AUDIO_BITSIZE (format spec)) div 8)
         \<and> unat (buffer_byte_max_position s') = 5 * unat (bytes_per_second spec)
         \<and> unat (buffer_byte_size s') = (5 + 1) * unat (bytes_per_second spec)
         \<and> unat MAX_RECORDING_SECONDS = 5
         \<and> unat RECORDING_BUFFER_SECONDS = 5 + 1
         \<and> (\<forall>i < unat (buffer_byte_size s'). heap s' (recording_buffer s' + i) = 0)
         \<and> (freq spec = 44100 \<and> channels spec = 2 \<and> format spec = AUDIO_F32 \<longrightarrow>
              unat (bytes_per_second spec) = 352800
              \<and> unat (buffer_byte_max_position s') = 1764000
              \<and> unat (buffer_byte_size s') = 2116800)"
proof -
  let ?p = "nat (freq spec) * unat (channels spec)
              * (unat (SDL_AUDIO_BITSIZE (format spec)) div 8)"
  have p: "?p = nat (freq spec) * unat (bytes_per_sample spec)"
    by (simp add: unat_bytes_per_sample mult.assoc)
  have small: "6 * ?p < 2 ^ 32" using assms(7) by simp
  then have "nat (freq spec) * unat (bytes_per_sample spec) < 2 ^ 32"
    using p by linarith
  then have "unat (bytes_per_second spec) = nat (freq spec) * unat (bytes_per_sample spec)"
    by (rule unat_bytes_per_second [OF assms(6)])
  then have bps: "unat (bytes_per_second spec) = ?p"
    by (simp only: p)
  have five: "unat (5 :: 32 word) * unat (bytes_per_second spec) < 2 ^ LENGTH(32)"
    using small bps by simp
  have six: "unat (6 :: 32 word) * unat (bytes_per_second spec) < 2 ^ LENGTH(32)"
    using small bps by simp
  have mx: "unat (buffer_byte_max_position s') = 5 * unat (bytes_per_second spec)"
    using unat_mult_lem [THEN iffD1, OF five]
    by (simp add: assms(5) handle_command_record_opens [OF assms(1-3)] MAX_RECORDING_SECONDS_def
        assms(4))
  have sz: "unat (buffer_byte_size s') = 6 * unat (bytes_per_second spec)"
    using unat_mult_lem [THEN iffD1, OF six]
    by (simp add: assms(5) handle_command_record_opens [OF assms(1-3)]
        RECORDING_BUFFER_SECONDS_def MAX_RECORDING_SECONDS_def assms(4))
  have zero: "\<forall>i < unat (buffer_byte_size s'). heap s' (recording_buffer s' + i) = 0"
    by (simp add: assms(5) handle_command_record_opens [OF assms(1-3)] zero_fill_def)
  have ex: "freq spec = 44100 \<and> channels spec = 2 \<and> format spec = AUDIO_F32 \<longrightarrow>
              unat (bytes_per_second spec) = 352800"
    by (simp add: bps SDL_AUDIO_BITSIZE_def AUDIO_F32_def)
  show ?thesis
    using bps mx sz zero ex
    by (simp add: MAX_RECORDING_SECONDS_def RECORDING_BUFFER_SECONDS_def)
qed

text \<open>
  The concrete run has the format of the claim: 352800 bytes per second, a maximum
  position of 1764000 and 2116800 zeroed bytes, from the first to the last.
\<close>

theorem buffer_sizing_from_received_spec_witness:
  "unat (bytes_per_second example_spec) = 352800
   \<and> unat (buffer_byte_max_position example_recording) = 1764000
   \<and> unat (buffer_byte_size example_recording) = 2116800
   \<and> heap example_recording (recording_buffer example_recording + 0) = 0
   \<and> heap example_recording (recording_buffer example_recording + 2116799) = 0
   \<and> memory_contents example_platform (calloc_address example_platform + 2116799) = 0xAA"
proof -
  have h: "unat (bytes_per_second example_spec)
           = nat (freq example_spec) * unat (channels example_spec)
               * (unat (SDL_AUDIO_BITSIZE (format example_spec)) div 8)
         \<and> unat (buffer_byte_max_position example_recording)
             = 5 * unat (bytes_per_second example_spec)
         \<and> unat (buffer_byte_size example_recording)
             = (5 + 1) * unat (bytes_per_second example_spec)
         \<and> unat MAX_RECORDING_SECONDS = 5
         \<and> unat RECORDING_BUFFER_SECONDS = 5 + 1
         \<and> (\<forall>i < unat (buffer_byte_size example_recording).
               heap example_recording (recording_buffer example_recording + i) = 0)
         \<and> (freq example_spec = 44100 \<and> channels example_spec = 2
              \<and> format example_spec = AUDIO_F32 \<longrightarrow>
              unat (bytes_per_second example_spec) = 352800
              \<and> unat (buffer_byte_max_position example_recording) = 1764000
              \<and> unat (buffer_byte_size example_recording) = 2116800)"
    by (rule buffer_sizing_from_received_spec
          [of "\<lparr>key = ''AB'', device = 0\<rparr>" example_started example_platform])
      (simp_all add: example_started_fields example_platform_fields example_recording_def
         example_spec_def SDL_AUDIO_BITSIZE_def AUDIO_F32_def)
  then have n: "unat (bytes_per_second example_spec) = 352800
      \<and> unat (buffer_byte_max_position example_recording) = 1764000
      \<and> unat (buffer_byte_size example_recording) = 2116800"
    by (simp add: example_spec_def)
  from h have z: "\<forall>i < unat (buffer_byte_size example_recording).
               heap example_recording (recording_buffer example_recording + i) = 0"
    by simp
  have "heap example_recording (recording_buffer example_recording + 0) = 0"
    using z [rule_format, of 0] n by simp
  moreover have "heap example_recording (recording_buffer example_recording + 2116799) = 0"
    using z [rule_format, of 2116799] n by simp
  ultimately show ?thesis
    using n by (simp add: example_platform_fields)
qed

subsection \<open>C5: at most five devices\<close>

text \<open>
  Claim C5. \<open>init\<close> fails exactly when SDL reports fewer than one capture device, and
  \<open>main\<close> then handles no command. Otherwise the device count the program keeps is the
  smaller of the reported count and 5, the table of names has exactly the entries of the
  indices below that count, \<open>show\<close> prints exactly these, and a record command for an
  index of 5 or more opens nothing (it only echoes its parameters). No operation sees a
  device of index 5 or more: whatever the platform would answer about their names or about
  opening them, \<open>main\<close> does the same.
\<close>

theorem enumeration_capped_at_five:
  "(fst (init plat s) \<longleftrightarrow> \<not> SDL_GetNumAudioDevices_capture plat < 1)
   \<and> (\<not> SDL_GetNumAudioDevices_capture plat < 1 \<longrightarrow>
        available_recording_device_count (snd (init plat s))
          = min (SDL_GetNumAudioDevices_capture plat) 5
        \<and> available_device_names (snd (init plat s))
            = Some (map (device_entry plat) [0 .. min (SDL_GetNumAudioDevices_capture plat) 5 - 1])
        \<and> handle_command plat CMDTYPE_SHOW No_Data (snd (init plat s))
            = emit (map (\<lambda>i. case device_entry plat i of
                                None \<Rightarrow> Invalid_Pointer_Use
                              | Some n \<Rightarrow> Stdout (n @ ''\<newline>''))
                      [0 .. min (SDL_GetNumAudioDevices_capture plat) 5 - 1])
                (snd (init plat s))
        \<and> (5 \<le> device param \<longrightarrow>
             handle_command plat CMDTYPE_RECORD (Record_Data param) (snd (init plat s))
               = emit [Stdout ('': param key = '' @ key param @ ''\<newline>''),
                       Stdout ('': param device = '' @ printf_d (device param) @ ''\<newline>'')]
                   (snd (init plat s))))
   \<and> main (hide_devices_above names' open' plat) argv = main plat argv
   \<and> (SDL_GetNumAudioDevices_capture plat < 1 \<and> \<not> SDL_Init_result plat < 0 \<longrightarrow>
        main plat argv
          = Some \<lparr>exit_code = 0, played = [],
                  final = close (emit [Stderr ''[Error] Failed to init\<newline>'']
                                   (snd (init plat (initial_state plat))))\<rparr>)"
proof (intro conjI impI)
  show "fst (init plat s) \<longleftrightarrow> \<not> SDL_GetNumAudioDevices_capture plat < 1"
    by (simp add: init_result not_less)
next
  assume "\<not> SDL_GetNumAudioDevices_capture plat < 1"
  then have n: "1 \<le> SDL_GetNumAudioDevices_capture plat" by simp
  show "available_recording_device_count (snd (init plat s))
          = min (SDL_GetNumAudioDevices_capture plat) 5"
    by (simp add: init_result(2) [OF n])
  show "available_device_names (snd (init plat s))
            = Some (map (device_entry plat) [0 .. min (SDL_GetNumAudioDevices_capture plat) 5 - 1])"
    by (simp add: init_result(2) [OF n])
  show "handle_command plat CMDTYPE_SHOW No_Data (snd (init plat s))
            = emit (map (\<lambda>i. case device_entry plat i of
                                None \<Rightarrow> Invalid_Pointer_Use
                              | Some n \<Rightarrow> Stdout (n @ ''\<newline>''))
                      [0 .. min (SDL_GetNumAudioDevices_capture plat) 5 - 1])
                (snd (init plat s))"
    using handle_command_show [of "snd (init plat s)" "device_entry plat" plat]
    by (simp add: init_result(2) [OF n])
  show "handle_command plat CMDTYPE_RECORD (Record_Data param) (snd (init plat s))
               = emit [Stdout ('': param key = '' @ key param @ ''\<newline>''),
                       Stdout ('': param device = '' @ printf_d (device param) @ ''\<newline>'')]
                   (snd (init plat s))" if "5 \<le> device param"
    using that init_count_le [of plat s] by (intro handle_command_record_rejects) simp
next
  show "main (hide_devices_above names' open' plat) argv = main plat argv"
    by (rule main_hide)
next
  assume "SDL_GetNumAudioDevices_capture plat < 1 \<and> \<not> SDL_Init_result plat < 0"
  then show "main plat argv
          = Some \<lparr>exit_code = 0, played = [],
                  final = close (emit [Stderr ''[Error] Failed to init\<newline>'']
                                   (snd (init plat (initial_state plat))))\<rparr>"
    by (simp add: main_def init_result(1) Let_def)
qed

text \<open>
  With seven devices reported the count is 5 and a record command for device 6 opens
  nothing; with none reported \<open>init\<close> fails and \<open>main\<close> ends without handling \<open>show\<close>.
\<close>

theorem enumeration_capped_at_five_witness:
  "fst (init crowded_platform (initial_state crowded_platform))
   \<and> available_recording_device_count (snd (init crowded_platform (initial_state crowded_platform)))
       = 5
   \<and> handle_command crowded_platform CMDTYPE_RECORD (Record_Data \<lparr>key = ''AB'', device = 6\<rparr>)
         (snd (init crowded_platform (initial_state crowded_platform)))
       = emit [Stdout '': param key = AB\<newline>'', Stdout '': param device = 6\<newline>'']
           (snd (init crowded_platform (initial_state crowded_platform)))
   \<and> \<not> fst (init silent_platform (initial_state silent_platform))
   \<and> main silent_platform [''voicememo'', ''show'']
       = Some \<lparr>exit_code = 0, played = [],
               final = close (emit [Stderr ''[Error] Failed to init\<newline>'']
                                (snd (init silent_platform (initial_state silent_platform))))\<rparr>"
  using enumeration_capped_at_five
          [of crowded_platform "initial_state crowded_platform" "\<lparr>key = ''AB'', device = 6\<rparr>"]
    enumeration_capped_at_five
          [of silent_platform "initial_state silent_platform" _ _ _ "[''voicememo'', ''show'']"]
  by (simp add: crowded_platform_fields silent_platform_fields printf_d_6)

subsection \<open>C1: the recording callback does not clamp\<close>

text \<open>
  Claim C1 says that each call of the capture callback copies only
  \<open>min(len, capacity - position)\<close> bytes, so that the cursor never exceeds the capacity
  however late the device is stopped. The code has no such clamp. In the concrete run, with
  64 chunks recorded (2097152 of 2116800 bytes), the next chunk of 32768 bytes moves the
  cursor to 2129920, not to 2097152 + min(32768, 19648), beyond the buffer size, and the
  first byte behind the buffer (\<open>0xAA\<close> before) holds recorded data.
\<close>

theorem recording_callback_overruns_buffer:
  "unat (buffer_byte_size example_full) = 2116800
   \<and> unat (buffer_byte_position example_full) = 2097152
   \<and> length example_chunk = 32768
   \<and> unat (buffer_byte_position (audio_recording_callback example_chunk example_full)) = 2129920
   \<and> unat (buffer_byte_position (audio_recording_callback example_chunk example_full))
       \<noteq> unat (buffer_byte_position example_full)
           + min (length example_chunk)
               (unat (buffer_byte_size example_full) - unat (buffer_byte_position example_full))
   \<and> \<not> unat (buffer_byte_position (audio_recording_callback example_chunk example_full))
         \<le> unat (buffer_byte_size (audio_recording_callback example_chunk example_full))
   \<and> heap example_full (recording_buffer example_full + 2116800) = 0xAA
   \<and> heap (audio_recording_callback example_chunk example_full)
         (recording_buffer (audio_recording_callback example_chunk example_full) + 2116800) = 0x55"
proof -
  have len: "length example_chunk = 32768" by (simp add: example_chunk_def)
  have before: "heap example_full (4096 + 2116800) = 0xAA"
    by (simp add: example_full_fields memcpy_to_def zero_fill_def length_example_chunks)
  have "heap (audio_recording_callback example_chunk example_full) (4096 + 2097152 + 19648)
          = example_chunk ! 19648"
    unfolding audio_recording_callback_def
    by (simp add: example_full_fields memcpy_to_def len)
  then have after: "heap (audio_recording_callback example_chunk example_full) (4096 + 2116800)
                      = 0x55"
    by (simp add: example_chunk_def)
  show ?thesis
    using before after
    by (simp add: audio_recording_callback_fields example_full_fields len)
qed

text \<open>
  C1 as the code has it. Every run of \<open>audio_recording_callback\<close> advances the cursor by the
  full length of every chunk (modulo \<open>2^32\<close>) and copies every chunk whole to the address
  of the cursor; the cursor stays within \<open>buffer_byte_size\<close> exactly when the bytes
  delivered fit the rest of the buffer (\<open>write_in_bounds\<close>), and then the buffer holds the
  chunks, in order, from the old cursor on, and is unchanged elsewhere.
\<close>

theorem recording_callbacks_copy_unclamped:
  "buffer_byte_position (recording_callbacks streams s)
     = buffer_byte_position s + of_nat (length (concat streams))
   \<and> buffer_byte_size (recording_callbacks streams s) = buffer_byte_size s
   \<and> recording_buffer (recording_callbacks streams s) = recording_buffer s
   \<and> (unat (buffer_byte_position s) + length (concat streams) < 2 ^ 32 \<longrightarrow>
        heap (recording_callbacks streams s)
          = memcpy_to (heap s) (recording_buffer s + unat (buffer_byte_position s))
              (concat streams)
        \<and> (unat (buffer_byte_position (recording_callbacks streams s))
               \<le> unat (buffer_byte_size (recording_callbacks streams s))
             \<longleftrightarrow> write_in_bounds s (length (concat streams))))
   \<and> (write_in_bounds s (length (concat streams)) \<longrightarrow>
        unat (buffer_byte_position (recording_callbacks streams s))
          = unat (buffer_byte_position s) + length (concat streams)
        \<and> unat (buffer_byte_position (recording_callbacks streams s))
            \<le> unat (buffer_byte_size (recording_callbacks streams s))
        \<and> buffer_contents (recording_callbacks streams s)
            = take (unat (buffer_byte_position s)) (buffer_contents s)
              @ concat streams
              @ drop (unat (buffer_byte_position s) + length (concat streams))
                  (buffer_contents s))"
proof -
  let ?p = "unat (buffer_byte_position s)"
  let ?n = "length (concat streams)"
  let ?s' = "recording_callbacks streams s"
  have wide: "heap ?s' = memcpy_to (heap s) (recording_buffer s + ?p) (concat streams)
              \<and> unat (buffer_byte_position ?s') = ?p + ?n" if "?p + ?n < 2 ^ 32"
    using that by (simp add: recording_callbacks_heap recording_callbacks_fields
        unat_position_advance)
  have fits: "?p + ?n < 2 ^ 32" if "write_in_bounds s ?n"
    using that size_bound [of "buffer_byte_size s"] by (simp add: write_in_bounds_def)
  have contents: "buffer_contents ?s'
            = take ?p (buffer_contents s) @ concat streams @ drop (?p + ?n) (buffer_contents s)"
    if "write_in_bounds s ?n"
  proof -
    have "?p + ?n \<le> unat (buffer_byte_size s)"
      using that by (simp add: write_in_bounds_def)
    then show ?thesis
      unfolding buffer_contents_def
      by (simp only: wide [OF fits [OF that]] recording_callbacks_fields
          memcpy_from_memcpy_to_within)
  qed
  show ?thesis
    using wide fits contents
    by (auto simp: recording_callbacks_fields write_in_bounds_def)
qed

text \<open>
  In the concrete run 54 chunks fit (cursor 1769472 of 2116800) and lie at the start of the
  buffer; 65 chunks do not fit, and the cursor ends beyond the buffer size.
\<close>

theorem recording_callbacks_copy_unclamped_witness:
  "write_in_bounds example_recording (length (concat (replicate 54 example_chunk)))
   \<and> unat (buffer_byte_position (recording_callbacks (replicate 54 example_chunk) example_recording))
       = 1769472
   \<and> unat (buffer_byte_position (recording_callbacks (replicate 54 example_chunk) example_recording))
       \<le> unat (buffer_byte_size (recording_callbacks (replicate 54 example_chunk) example_recording))
   \<and> buffer_contents (recording_callbacks (replicate 54 example_chunk) example_recording)
       = concat (replicate 54 example_chunk) @ drop 1769472 (buffer_contents example_recording)
   \<and> \<not> write_in_bounds example_recording (length (concat (replicate 65 example_chunk)))
   \<and> \<not> unat (buffer_byte_position
               (recording_callbacks (replicate 65 example_chunk) example_recording))
         \<le> unat (buffer_byte_size
                   (recording_callbacks (replicate 65 example_chunk) example_recording))"
  using recording_callbacks_copy_unclamped [of "replicate 54 example_chunk" example_recording]
    recording_callbacks_copy_unclamped [of "replicate 65 example_chunk" example_recording]
  by (simp add: example_recording_fields length_example_chunks write_in_bounds_def)

subsection \<open>C2: the playback callback does not clamp\<close>

text \<open>
  Claim C2 says that the playback callback copies \<open>min(len, capacity - position)\<close> bytes
  and fills the rest of the destination with zeros. The code copies \<open>len\<close> bytes from the
  address of the cursor, whatever lies there. In the concrete run, with 64 requests played
  (cursor 2097152 of 2116800), the next request of 32768 bytes returns, from index 19648
  on, the bytes behind the buffer (\<open>0xAA\<close>) and not zeros, and the cursor ends at 2129920.
\<close>

theorem playback_callback_reads_past_buffer:
  "unat (buffer_byte_size example_played_late) = 2116800
   \<and> unat (buffer_byte_position example_played_late) = 2097152
   \<and> min 32768 (unat (buffer_byte_size example_played_late)
                  - unat (buffer_byte_position example_played_late)) = 19648
   \<and> length (fst (audio_playback_callback 32768 example_played_late)) = 32768
   \<and> fst (audio_playback_callback 32768 example_played_late) ! 19647 = 0
   \<and> fst (audio_playback_callback 32768 example_played_late) ! 19648 = 0xAA
   \<and> fst (audio_playback_callback 32768 example_played_late) ! 32767 = 0xAA
   \<and> unat (buffer_byte_position (snd (audio_playback_callback 32768 example_played_late)))
       = 2129920
   \<and> \<not> unat (buffer_byte_position (snd (audio_playback_callback 32768 example_played_late)))
         \<le> unat (buffer_byte_size (snd (audio_playback_callback 32768 example_played_late)))"
  by (simp add: audio_playback_callback_fields example_played_late_fields length_memcpy_from
      nth_memcpy_from example_recorded_heap memcpy_to_def zero_fill_def length_example_chunks)

text \<open>
  C2 as the code has it. Every call of \<open>audio_playback_callback\<close> with length \<open>len\<close> returns
  exactly the \<open>len\<close> bytes at the address of the cursor and advances the cursor by \<open>len\<close>
  (modulo \<open>2^32\<close>), leaving the heap as it is. When the request lies inside the buffer
  (\<open>read_in_bounds\<close>) these are the bytes of the buffer from the cursor on, \<open>len\<close> is
  \<open>min(len, buffer_byte_size - cursor)\<close>, and the cursor stays within the buffer size.
\<close>

theorem playback_callback_copies_unclamped:
  "fst (audio_playback_callback len s)
     = memcpy_from (heap s) (recording_buffer s + unat (buffer_byte_position s)) len
   \<and> length (fst (audio_playback_callback len s)) = len
   \<and> buffer_byte_position (snd (audio_playback_callback len s))
       = buffer_byte_position s + of_nat len
   \<and> heap (snd (audio_playback_callback len s)) = heap s
   \<and> buffer_byte_size (snd (audio_playback_callback len s)) = buffer_byte_size s
   \<and> (read_in_bounds s len \<longrightarrow>
        fst (audio_playback_callback len s)
          = take len (drop (unat (buffer_byte_position s)) (buffer_contents s))
        \<and> min len (unat (buffer_byte_size s) - unat (buffer_byte_position s)) = len
        \<and> unat (buffer_byte_position (snd (audio_playback_callback len s)))
            = unat (buffer_byte_position s) + len
        \<and> unat (buffer_byte_position (snd (audio_playback_callback len s)))
            \<le> unat (buffer_byte_size (snd (audio_playback_callback len s))))"
proof -
  let ?p = "unat (buffer_byte_position s)"
  let ?n = "unat (buffer_byte_size s)"
  have inside: "take len (drop ?p (buffer_contents s))
                  = memcpy_from (heap s) (recording_buffer s + ?p) len
                \<and> unat (buffer_byte_position s + of_nat len) = ?p + len"
    if "read_in_bounds s len"
  proof -
    have le: "?p + len \<le> ?n" using that by (simp add: read_in_bounds_def)
    then have "?p + len < 2 ^ 32" using size_bound [of "buffer_byte_size s"] by linarith
    then have adv: "unat (buffer_byte_position s + of_nat len) = ?p + len"
      by (rule unat_position_advance)
    from le obtain r where "?n = ?p + len + r"
      using le_Suc_ex by blast
    then have n: "?n = ?p + (len + r)" by simp
    have "buffer_contents s
            = memcpy_from (heap s) (recording_buffer s) ?p
              @ memcpy_from (heap s) (recording_buffer s + ?p) len
              @ memcpy_from (heap s) (recording_buffer s + ?p + len) r"
      unfolding buffer_contents_def
      by (simp only: n memcpy_from_add)
    then have "take len (drop ?p (buffer_contents s))
                 = memcpy_from (heap s) (recording_buffer s + ?p) len"
      by (simp add: length_memcpy_from)
    with adv show ?thesis by simp
  qed
  show ?thesis
    using inside
    by (auto simp: audio_playback_callback_fields length_memcpy_from read_in_bounds_def)
qed

text \<open>The first request of the concrete playback lies inside the buffer.\<close>

theorem playback_callback_copies_unclamped_witness:
  "read_in_bounds example_playing 32768
   \<and> fst (audio_playback_callback 32768 example_playing)
       = take 32768 (drop 0 (buffer_contents example_playing))
   \<and> unat (buffer_byte_position (snd (audio_playback_callback 32768 example_playing))) = 32768
   \<and> unat (buffer_byte_position (snd (audio_playback_callback 32768 example_playing)))
       \<le> unat (buffer_byte_size (snd (audio_playback_callback 32768 example_playing)))"
proof -
  have r: "read_in_bounds example_playing 32768"
    by (simp add: read_in_bounds_def example_playing_fields)
  from playback_callback_copies_unclamped [of 32768 example_playing] r
  have "fst (audio_playback_callback 32768 example_playing)
          = take 32768 (drop (unat (buffer_byte_position example_playing))
                          (buffer_contents example_playing))
        \<and> unat (buffer_byte_position (snd (audio_playback_callback 32768 example_playing)))
            = unat (buffer_byte_position example_playing) + 32768
        \<and> unat (buffer_byte_position (snd (audio_playback_callback 32768 example_playing)))
            \<le> unat (buffer_byte_size (snd (audio_playback_callback 32768 example_playing)))"
    by blast
  then show ?thesis
    using r by (simp add: example_playing_fields)
qed

subsection \<open>C8: one cursor, not two\<close>

text \<open>
  Claim C8 speaks of a write cursor and a read cursor that move independently. The program
  has the single cursor \<open>buffer_byte_position\<close>. In the concrete run: after a recording
  callback of four bytes at cursor 0 the buffer starts with these bytes, but a playback
  callback now reads behind them (four zeros), since recording moved the cursor playback
  reads at; after a playback callback of four bytes a recording callback writes at offset
  4, not 0; and after the rewind for playback (cursor 1769472 before, 0 after) a recording
  callback overwrites the first recorded byte: the write position was not kept.
\<close>

theorem recording_moves_the_playback_cursor:
  "buffer_byte_position example_recording = 0
   \<and> buffer_byte_position (audio_recording_callback [1, 2, 3, 4] example_recording) = 4
   \<and> memcpy_from (heap (audio_recording_callback [1, 2, 3, 4] example_recording))
         (recording_buffer example_recording) 4 = [1, 2, 3, 4]
   \<and> fst (audio_playback_callback 4 (audio_recording_callback [1, 2, 3, 4] example_recording))
       = [0, 0, 0, 0]
   \<and> buffer_byte_position (snd (audio_playback_callback 4 example_recording)) = 4
   \<and> heap (audio_recording_callback [9] (snd (audio_playback_callback 4 example_recording)))
         (recording_buffer example_recording + 0) = 0
   \<and> heap (audio_recording_callback [9] (snd (audio_playback_callback 4 example_recording)))
         (recording_buffer example_recording + 4) = 9
   \<and> buffer_byte_position example_recorded = 1769472
   \<and> buffer_byte_position (start_playback example_recorded) = 0
   \<and> heap (start_playback example_recorded) (recording_buffer example_recorded + 0) = 0x55
   \<and> heap (audio_recording_callback [9] (start_playback example_recorded))
         (recording_buffer example_recorded + 0) = 9"
proof -
  have l: "length [1, 2, 3, 4 :: Uint8] = 4" by simp
  have a: "memcpy_from (heap (audio_recording_callback [1, 2, 3, 4] example_recording))
         (recording_buffer example_recording) 4 = [1, 2, 3, 4]"
    using memcpy_from_memcpy_to [of "heap example_recording" 4096 "[1, 2, 3, 4]"]
    unfolding l
    by (simp add: audio_recording_callback_def example_recording_fields)
  have "memcpy_from (heap (audio_recording_callback [1, 2, 3, 4] example_recording)) (4096 + 4) 4
          = map (\<lambda>x. 0) [4096 + 4 ..< 4096 + 4 + 4]"
    unfolding memcpy_from_def
    by (rule map_cong [OF refl])
       (auto simp: audio_recording_callback_def example_recording_fields memcpy_to_def
          zero_fill_def)
  then have b: "fst (audio_playback_callback 4
                   (audio_recording_callback [1, 2, 3, 4] example_recording)) = [0, 0, 0, 0]"
    by (simp add: audio_playback_callback_fields audio_recording_callback_fields
        example_recording_fields upt_rec)
  have c: "heap (audio_recording_callback [9] (snd (audio_playback_callback 4 example_recording)))
         (recording_buffer example_recording + 0) = 0"
    "heap (audio_recording_callback [9] (snd (audio_playback_callback 4 example_recording)))
         (recording_buffer example_recording + 4) = 9"
    by (simp_all add: audio_recording_callback_def audio_playback_callback_fields
        example_recording_fields memcpy_to_def zero_fill_def)
  have d: "heap (start_playback example_recorded) (recording_buffer example_recorded + 0) = 0x55"
    "heap (audio_recording_callback [9] (start_playback example_recorded))
         (recording_buffer example_recorded + 0) = 9"
    by (simp_all add: audio_recording_callback_def start_playback_fields example_recorded_heap
        example_recorded_fields memcpy_to_def concat_example_chunks)
  show ?thesis
    using a b c d
    by (simp add: example_recording_fields example_recorded_fields start_playback_fields
        audio_recording_callback_fields audio_playback_callback_fields)
qed

text \<open>
  C8 as the code has it. The recording callback changes nothing but the heap and the
  cursor, and the heap only in the bytes of the chunk at the cursor; the playback callback
  changes nothing but the same cursor (the stored bytes stay), and reads where the
  recording callback left the cursor; the rewind for playback sets that cursor to 0 and
  keeps the heap (besides the cursor it changes the state and the trace only).
\<close>

theorem callbacks_share_one_cursor:
  "(audio_recording_callback stream s)
      \<lparr>heap := heap s, buffer_byte_position := buffer_byte_position s\<rparr> = s
   \<and> buffer_byte_position (audio_recording_callback stream s)
       = buffer_byte_position s + of_nat (length stream)
   \<and> (\<forall>x. x < recording_buffer s + unat (buffer_byte_position s)
            \<or> recording_buffer s + unat (buffer_byte_position s) + length stream \<le> x
          \<longrightarrow> heap (audio_recording_callback stream s) x = heap s x)
   \<and> (snd (audio_playback_callback len s))\<lparr>buffer_byte_position := buffer_byte_position s\<rparr> = s
   \<and> buffer_byte_position (snd (audio_playback_callback len s))
       = buffer_byte_position s + of_nat len
   \<and> fst (audio_playback_callback len (audio_recording_callback stream s))
       = memcpy_from (heap (audio_recording_callback stream s))
           (recording_buffer s + unat (buffer_byte_position s + of_nat (length stream))) len
   \<and> (start_playback s)
        \<lparr>buffer_byte_position := buffer_byte_position s,
         recording_state := recording_state s, trace := trace s\<rparr> = s
   \<and> buffer_byte_position (start_playback s) = 0
   \<and> heap (start_playback s) = heap s"
  by (simp add: audio_recording_callback_def audio_playback_callback_def start_playback_def
      emit_def memcpy_to_def)

text \<open>In the concrete run.\<close>

theorem callbacks_share_one_cursor_witness:
  "heap (audio_recording_callback [1, 2, 3, 4] example_recording) (4096 + 4)
     = heap example_recording (4096 + 4)
   \<and> buffer_byte_position (audio_recording_callback [1, 2, 3, 4] example_recording) = 4
   \<and> buffer_byte_position (snd (audio_playback_callback 4 example_recording)) = 4
   \<and> buffer_byte_position (start_playback example_recorded) = 0
   \<and> heap (start_playback example_recorded) = heap example_recorded"
proof -
  note t = callbacks_share_one_cursor
             [where stream = "[1, 2, 3, 4]" and s = example_recording and len = 4]
  have "4096 + 4 < recording_buffer example_recording
                     + unat (buffer_byte_position example_recording)
        \<or> recording_buffer example_recording + unat (buffer_byte_position example_recording)
            + length [1 :: Uint8, 2, 3, 4] \<le> 4096 + 4"
    by (simp add: example_recording_fields)
  with t have "heap (audio_recording_callback [1, 2, 3, 4] example_recording) (4096 + 4)
     = heap example_recording (4096 + 4)"
    by blast
  moreover from t have
    "buffer_byte_position (audio_recording_callback [1, 2, 3, 4] example_recording) = 4"
    "buffer_byte_position (snd (audio_playback_callback 4 example_recording)) = 4"
    by (simp_all add: example_recording_fields)
  ultimately show ?thesis
    using callbacks_share_one_cursor [where stream = "[]" and s = example_recorded and len = 0]
    by simp
qed

subsection \<open>C9: the order of the steps that end a pass\<close>

text \<open>
  Claim C9 says that the tick that ends a pass takes the device lock, checks completion
  again under the lock, stops the device and releases the lock. \<open>update\<close> compares the
  cursor with the maximum once, before it takes the lock, and never under it. In the
  concrete run the steps of the \<open>update\<close> that ends the recording are: the comparison, the
  lock, the pause, the message, the unlock; nothing happens between lock and pause, and the
  one comparison stands before the lock.
\<close>

theorem update_does_not_compare_under_lock:
  "recording_state (recording_callbacks (replicate 54 example_chunk) example_recording) = RECORDING
   \<and> recording_state (update (recording_callbacks (replicate 54 example_chunk) example_recording))
       = RECORDED
   \<and> drop (length (trace (recording_callbacks (replicate 54 example_chunk) example_recording)))
         (trace (update (recording_callbacks (replicate 54 example_chunk) example_recording)))
       = [Compare_Position True, Lock_Audio_Device 2, Pause_Audio_Device 2 True,
          Stdout ''Recorded successfully\<newline>'', Unlock_Audio_Device 2]
   \<and> takeWhile (\<lambda>e. e \<noteq> Pause_Audio_Device 2 True)
         (tl (dropWhile (\<lambda>e. e \<noteq> Lock_Audio_Device 2)
                (drop (length (trace (recording_callbacks (replicate 54 example_chunk)
                                        example_recording)))
                   (trace (update (recording_callbacks (replicate 54 example_chunk)
                                     example_recording))))))
       = []
   \<and> takeWhile (\<lambda>e. e \<noteq> Lock_Audio_Device 2)
         (drop (length (trace (recording_callbacks (replicate 54 example_chunk)
                                 example_recording)))
            (trace (update (recording_callbacks (replicate 54 example_chunk)
                              example_recording))))
       = [Compare_Position True]"
  by (simp add: update_def recording_callbacks_fields example_recording_fields
      length_example_chunks)

text \<open>
  C9 as the code has it. Every \<open>update\<close> that ends a recording pass compares the cursor with
  the maximum position (and finds it greater), then locks the recording device, pauses it,
  prints, and unlocks it, in this order, with no second comparison; the \<open>update\<close> that ends
  a playback pass does the same with the playback device.
\<close>

theorem update_compares_before_locking:
  "(recording_state s = RECORDING \<and> recording_state (update s) = RECORDED \<longrightarrow>
      trace (update s)
        = trace s @ [Compare_Position True,
                     Lock_Audio_Device (recording_deviceid s),
                     Pause_Audio_Device (recording_deviceid s) True,
                     Stdout ''Recorded successfully\<newline>'',
                     Unlock_Audio_Device (recording_deviceid s)]
      \<and> buffer_byte_position s > buffer_byte_max_position s)
   \<and> (recording_state s = PLAYBACK \<and> recording_state (update s) = RECORDED \<longrightarrow>
      trace (update s)
        = trace s @ [Compare_Position True,
                     Lock_Audio_Device (playback_deviceid s),
                     Pause_Audio_Device (playback_deviceid s) True,
                     Stdout ''Playback complete\<newline>'',
                     Unlock_Audio_Device (playback_deviceid s)]
      \<and> buffer_byte_position s > buffer_byte_max_position s)"
  by (auto simp: update_def emit_def split: if_splits)

text \<open>The two passes of the concrete run end in this way.\<close>

theorem update_compares_before_locking_witness:
  "trace (update (recording_callbacks (replicate 54 example_chunk) example_recording))
     = trace example_recording
       @ [Compare_Position True, Lock_Audio_Device 2, Pause_Audio_Device 2 True,
          Stdout ''Recorded successfully\<newline>'', Unlock_Audio_Device 2]
   \<and> trace (update (snd (playback_callbacks (replicate 54 32768) example_playing)))
     = trace example_playing
       @ [Compare_Position True, Lock_Audio_Device 3, Pause_Audio_Device 3 True,
          Stdout ''Playback complete\<newline>'', Unlock_Audio_Device 3]"
proof -
  let ?r = "recording_callbacks (replicate 54 example_chunk) example_recording"
  let ?p = "snd (playback_callbacks (replicate 54 32768) example_playing)"
  have r: "recording_state ?r = RECORDING \<and> recording_state (update ?r) = RECORDED"
    by (simp add: update_def recording_callbacks_fields example_recording_fields
        length_example_chunks)
  have p: "recording_state ?p = PLAYBACK \<and> recording_state (update ?p) = RECORDED"
    by (simp add: update_def playback_callbacks_fields example_playing_fields
        sum_list_replicate)
  from update_compares_before_locking [of ?r] r
  have "trace (update ?r)
        = trace ?r @ [Compare_Position True,
                     Lock_Audio_Device (recording_deviceid ?r),
                     Pause_Audio_Device (recording_deviceid ?r) True,
                     Stdout ''Recorded successfully\<newline>'',
                     Unlock_Audio_Device (recording_deviceid ?r)]"
    by blast
  moreover from update_compares_before_locking [of ?p] p
  have "trace (update ?p)
        = trace ?p @ [Compare_Position True,
                     Lock_Audio_Device (playback_deviceid ?p),
                     Pause_Audio_Device (playback_deviceid ?p) True,
                     Stdout ''Playback complete\<newline>'',
                     Unlock_Audio_Device (playback_deviceid ?p)]"
    by blast
  ultimately show ?thesis
    by (simp add: recording_callbacks_fields playback_callbacks_fields example_recording_fields
        example_playing_fields)
qed

subsection \<open>C10: a device value that is no number\<close>




subsection \<open>C6: a device index out of range\<close>

text \<open>
  Claim C6 asks that a record command with an index outside \<open>0 \<le> INDEX < count\<close> opens no
  device, allocates no buffer, stays in \<open>SELECTING_DEVICE\<close>, reports the invalid index and
  exits with -1. The test of \<open>handle_command\<close> is \<open>param.device < count\<close> alone, under the
  comment "index is valid". On the concrete machine with three devices,
  \<open>record -k AB -d -1\<close> passes it: the device of index -1 is opened, the buffer is
  allocated and the state becomes \<open>RECORDING\<close>. \<open>record -k AB -d 99\<close> is turned away and
  \<open>main\<close> returns -1 in state \<open>SELECTING_DEVICE\<close>, but the whole output is the echo of the
  two parameters: nothing reports the invalid index.
\<close>

theorem negative_device_index_is_opened:
  "device (fst (scan_arguments example_platform
                  [''voicememo'', ''record'', ''-k'', ''AB'', ''-d'', ''-1''])) = - 1
   \<and> key (fst (scan_arguments example_platform
                 [''voicememo'', ''record'', ''-k'', ''AB'', ''-d'', ''-1''])) = ''AB''
   \<and> snd (scan_arguments example_platform
            [''voicememo'', ''record'', ''-k'', ''AB'', ''-d'', ''-1'']) = 3
   \<and> available_recording_device_count example_started = 3
   \<and> recording_state example_started = SELECTING_DEVICE
   \<and> recording_state (handle_command example_platform CMDTYPE_RECORD
                         (Record_Data \<lparr>key = ''AB'', device = - 1\<rparr>) example_started)
       = RECORDING
   \<and> Open_Capture_Device (- 1)
       \<in> set (trace (handle_command example_platform CMDTYPE_RECORD
                        (Record_Data \<lparr>key = ''AB'', device = - 1\<rparr>) example_started))
   \<and> recording_buffer (handle_command example_platform CMDTYPE_RECORD
                          (Record_Data \<lparr>key = ''AB'', device = - 1\<rparr>) example_started)
       = 4096
   \<and> device (fst (scan_arguments example_platform
                     [''voicememo'', ''record'', ''-k'', ''AB'', ''-d'', ''99''])) = 99
   \<and> main example_platform [''voicememo'', ''record'', ''-k'', ''AB'', ''-d'', ''99'']
       = Some \<lparr>exit_code = - 1, played = [],
               final = close (emit [Stdout '': param key = AB\<newline>'',
                                    Stdout '': param device = 99\<newline>''] example_started)\<rparr>
   \<and> trace (close (emit [Stdout '': param key = AB\<newline>'',
                          Stdout '': param device = 99\<newline>''] example_started))
       = [Stdout '': param key = AB\<newline>'', Stdout '': param device = 99\<newline>'', Quit]
   \<and> recording_state (close (emit [Stdout '': param key = AB\<newline>'',
                          Stdout '': param device = 99\<newline>''] example_started))
       = SELECTING_DEVICE"
proof -
  have k: "strncmp ''-k'' ''-k'' 2 = 0 \<or> strncmp ''-k'' ''--key'' 5 = 0"
    and d: "strncmp ''-d'' ''-d'' 2 = 0 \<or> strncmp ''-d'' ''--device'' 8 = 0"
    and nk: "\<not> (strncmp ''AB'' ''-k'' 2 = 0 \<or> strncmp ''AB'' ''--key'' 5 = 0)"
    and r: "strncmp ''record'' ''record'' 6 = 0"
    by (simp_all add: strncmp_eq_0_iff)
  note s1 = scan_arguments_key_then_device
              [OF k d, of example_platform "''voicememo''" "''record''" "''AB''" "''-1''" "[]"]
  note s2 = scan_arguments_key_then_device
              [OF k d, of example_platform "''voicememo''" "''record''" "''AB''" "''99''" "[]"]
  have neg: "(- 1 :: int) < available_recording_device_count example_started"
    by (simp add: example_started_fields)
  note o = handle_command_record_opens(4,6)
             [of "\<lparr>key = ''AB'', device = - 1\<rparr>" example_started example_platform]
  note a = handle_command_record_attempts_open(1)
             [of "\<lparr>key = ''AB'', device = - 1\<rparr>" example_started example_platform]
  have arg: "fst (scan_arguments example_platform
                    [''voicememo'', ''record'', ''-k'', ''AB'', ''-d'', ''99''])
               = \<lparr>key = ''AB'', device = 99\<rparr>"
    using s2 nk by (intro ArgCmdRecord.equality) (simp_all add: strtol_examples)
  have m: "main example_platform [''voicememo'', ''record'', ''-k'', ''AB'', ''-d'', ''99'']
       = record_session example_platform
           (handle_command example_platform CMDTYPE_RECORD
              (Record_Data \<lparr>key = ''AB'', device = 99\<rparr>) example_started)"
    using main_record_command [OF r, of example_platform "''voicememo''" "''-k''" "''AB''"
        "''-d''" "''99''" "[]"] s2(2)
    by (simp add: arg example_platform_fields example_started_def)
  have rej: "handle_command example_platform CMDTYPE_RECORD
              (Record_Data \<lparr>key = ''AB'', device = 99\<rparr>) example_started
             = emit [Stdout '': param key = AB\<newline>'',
                     Stdout '': param device = 99\<newline>''] example_started"
    using handle_command_record_rejects
            [of example_started "\<lparr>key = ''AB'', device = 99\<rparr>" example_platform]
    by (simp add: example_started_fields printf_d_examples)
  obtain names where names: "available_device_names example_started = Some names"
    "None \<notin> set names"
    using example_started_names by blast
  have tr: "trace (close (emit [Stdout '': param key = AB\<newline>'',
                          Stdout '': param device = 99\<newline>''] example_started))
       = [Stdout '': param key = AB\<newline>'', Stdout '': param device = 99\<newline>'', Quit]"
    using close_trace [of "emit [Stdout '': param key = AB\<newline>'',
                          Stdout '': param device = 99\<newline>''] example_started" names]
    by (simp add: emit_def names example_started_fields)
  have st: "recording_state (close (emit [Stdout '': param key = AB\<newline>'',
                          Stdout '': param device = 99\<newline>''] example_started))
       = SELECTING_DEVICE"
    by (simp add: close_fields emit_def example_started_fields)
  show ?thesis
    using s1 s2 nk neg o a m tr st
    by (simp add: strtol_examples example_started_fields example_platform_fields rej
        record_session_def emit_def)
qed

subsection \<open>An index from the device count on is turned away\<close>

text \<open>
  The part of C6 the code keeps: a record command with both options whose index is at
  least the device count makes \<open>main\<close> return -1 after \<open>handle_command\<close> has only echoed
  the two parameters; the state is still \<open>SELECTING_DEVICE\<close>, no device id is set and the
  buffer pointer is still NULL.
\<close>

theorem record_index_at_or_above_count_is_rejected:
  assumes "strncmp cmd ''record'' 6 = 0"
    and "argv = prog # cmd # a2 # a3 # a4 # a5 # extra"
    and "snd (scan_arguments plat argv) AND 3 = 3"
    and "\<not> SDL_Init_result plat < 0"
    and "\<not> SDL_GetNumAudioDevices_capture plat < 1"
    and "min (SDL_GetNumAudioDevices_capture plat) 5 \<le> device (fst (scan_arguments plat argv))"
  shows "main plat argv
           = Some \<lparr>exit_code = - 1, played = [],
                   final = close (emit
                     [Stdout ('': param key = '' @ key (fst (scan_arguments plat argv))
                              @ ''\<newline>''),
                      Stdout ('': param device = ''
                              @ printf_d (device (fst (scan_arguments plat argv)))
                              @ ''\<newline>'')]
                     (snd (init plat (initial_state plat))))\<rparr>
         \<and> recording_state (close (emit
                     [Stdout ('': param key = '' @ key (fst (scan_arguments plat argv))
                              @ ''\<newline>''),
                      Stdout ('': param device = ''
                              @ printf_d (device (fst (scan_arguments plat argv)))
                              @ ''\<newline>'')]
                     (snd (init plat (initial_state plat))))) = SELECTING_DEVICE
         \<and> recording_buffer (close (emit
                     [Stdout ('': param key = '' @ key (fst (scan_arguments plat argv))
                              @ ''\<newline>''),
                      Stdout ('': param device = ''
                              @ printf_d (device (fst (scan_arguments plat argv)))
                              @ ''\<newline>'')]
                     (snd (init plat (initial_state plat))))) = 0
         \<and> recording_deviceid (close (emit
                     [Stdout ('': param key = '' @ key (fst (scan_arguments plat argv))
                              @ ''\<newline>''),
                      Stdout ('': param device = ''
                              @ printf_d (device (fst (scan_arguments plat argv)))
                              @ ''\<newline>'')]
                     (snd (init plat (initial_state plat))))) = 0"
proof -
  let ?arg = "fst (scan_arguments plat argv)"
  let ?s = "snd (init plat (initial_state plat))"
  have "1 \<le> SDL_GetNumAudioDevices_capture plat" using assms(5) by simp
  then have "available_recording_device_count ?s = min (SDL_GetNumAudioDevices_capture plat) 5"
    by (simp add: init_result(2))
  then have "available_recording_device_count ?s \<le> device ?arg"
    using assms(6) by simp
  then have h: "handle_command plat CMDTYPE_RECORD (Record_Data ?arg) ?s
                  = emit [Stdout ('': param key = '' @ key ?arg @ ''\<newline>''),
                          Stdout ('': param device = '' @ printf_d (device ?arg)
                                  @ ''\<newline>'')] ?s"
    by (rule handle_command_record_rejects)
  have st: "recording_state ?s = SELECTING_DEVICE" "recording_buffer ?s = 0"
    "recording_deviceid ?s = 0"
    by (simp_all add: init_fields initial_state_def)
  have "main plat argv = record_session plat (handle_command plat CMDTYPE_RECORD
                                                (Record_Data ?arg) ?s)"
    unfolding assms(2)
    by (rule main_record_command [OF assms(1) assms(3) [unfolded assms(2)] assms(4) assms(5)])
  then have m: "main plat argv
           = Some \<lparr>exit_code = - 1, played = [],
                   final = close (emit
                     [Stdout ('': param key = '' @ key ?arg @ ''\<newline>''),
                      Stdout ('': param device = '' @ printf_d (device ?arg) @ ''\<newline>'')]
                     ?s)\<rparr>"
    by (simp add: h record_session_def emit_def st)
  show ?thesis
    by (simp add: m close_fields emit_def st)
qed

text \<open>\<open>record -k AB -d 3\<close> on the concrete machine with its three devices.\<close>

theorem record_index_at_or_above_count_is_rejected_witness:
  "main example_platform [''voicememo'', ''record'', ''-k'', ''AB'', ''-d'', ''3'']
     = Some \<lparr>exit_code = - 1, played = [],
             final = close (emit [Stdout '': param key = AB\<newline>'',
                                  Stdout '': param device = 3\<newline>''] example_started)\<rparr>
   \<and> recording_state (close (emit [Stdout '': param key = AB\<newline>'',
                                  Stdout '': param device = 3\<newline>''] example_started))
       = SELECTING_DEVICE"
proof -
  have k: "strncmp ''-k'' ''-k'' 2 = 0 \<or> strncmp ''-k'' ''--key'' 5 = 0"
    and d: "strncmp ''-d'' ''-d'' 2 = 0 \<or> strncmp ''-d'' ''--device'' 8 = 0"
    and nk: "\<not> (strncmp ''AB'' ''-k'' 2 = 0 \<or> strncmp ''AB'' ''--key'' 5 = 0)"
    and r: "strncmp ''record'' ''record'' 6 = 0"
    by (simp_all add: strncmp_eq_0_iff)
  note s = scan_arguments_key_then_device
              [OF k d, of example_platform "''voicememo''" "''record''" "''AB''" "''3''" "[]"]
  have v: "int_of_long (strtol ''3'') = 3"
    by (simp add: strtol_def strtol_digits_def strtol_negative_def isspace_def isdigit_def
        int_of_long_def LONG_MIN_def LONG_MAX_def)
  have p: "printf_d 3 = ''3''" by code_simp
  have bits: "snd (scan_arguments example_platform
                     [''voicememo'', ''record'', ''-k'', ''AB'', ''-d'', ''3'']) AND 3 = 3"
    using s(2) by simp
  have i: "\<not> SDL_Init_result example_platform < 0"
    "\<not> SDL_GetNumAudioDevices_capture example_platform < 1"
    by (simp_all add: example_platform_fields)
  have big: "min (SDL_GetNumAudioDevices_capture example_platform) 5
               \<le> device (fst (scan_arguments example_platform
                     [''voicememo'', ''record'', ''-k'', ''AB'', ''-d'', ''3'']))"
    using s(1) by (simp add: v example_platform_fields)
  from record_index_at_or_above_count_is_rejected [OF r refl bits i big]
  show ?thesis
    using s nk by (simp add: v p example_started_def)
qed

subsection \<open>C7: what is recorded is what is played\<close>

text \<open>
  Claim C7. A recording pass is a run of \<open>audio_recording_callback\<close> from cursor 0, ended
  by the \<open>update\<close> that sees the cursor beyond the maximum; \<open>main\<close> then rewinds the cursor
  (\<open>start_playback\<close>) and the playback pass is a run of \<open>audio_playback_callback\<close>. When
  the recorded bytes fit the buffer and the playback callbacks ask for as many bytes in
  total as were recorded, however the total is cut into requests, the bytes handed to the
  playback device are the recorded bytes, in order. This holds for the callbacks run one
  after the other, and for the two loops of \<open>main\<close>, where calls of \<open>update\<close> stand between
  the callbacks: if both loops return, what the playback loop has played is what the
  recording loop has recorded (\<open>recording_loop_streams\<close>).
\<close>

theorem playback_returns_recorded_bytes:
  "(buffer_byte_position s = 0
      \<and> length (concat streams) \<le> unat (buffer_byte_size s)
      \<and> sum_list lens = length (concat streams) \<longrightarrow>
    concat (fst (playback_callbacks lens
                   (start_playback (update (recording_callbacks streams s)))))
      = concat streams)
   \<and> (recording_loop sched t = Some t1
        \<and> playback_loop reqs (start_playback t1) = Some (outs, t2)
        \<and> buffer_byte_position t = 0
        \<and> length (concat (recording_loop_streams sched t)) \<le> unat (buffer_byte_size t)
        \<and> length (concat outs) = length (concat (recording_loop_streams sched t)) \<longrightarrow>
      concat outs = concat (recording_loop_streams sched t))"
  using callbacks_round_trip [of s streams lens] loops_round_trip [of sched t t1 reqs outs t2]
  by blast

text \<open>
  The concrete run: 54 chunks of 32768 bytes are recorded and come back in 108 requests of
  16384 bytes. The small run: the loops of \<open>main\<close> record \<open>1, 2, 3\<close> and \<open>4, 5, 6\<close>, return,
  and play \<open>1, 2\<close>, \<open>3, 4\<close>, \<open>5, 6\<close>; \<open>main\<close> ends with exit code 0.
\<close>

theorem playback_returns_recorded_bytes_witness:
  "concat (fst (playback_callbacks (replicate 108 16384)
                    (start_playback (update
                       (recording_callbacks (replicate 54 example_chunk) example_recording)))))
       = concat (replicate 54 example_chunk)
   \<and> (\<exists>s1 s2. recording_loop (capture_stream tiny_platform) tiny_recording = Some s1
         \<and> playback_loop (playback_requests tiny_platform) (start_playback s1)
             = Some ([[1, 2], [3, 4], [5, 6]], s2))
   \<and> recording_loop_streams (capture_stream tiny_platform) tiny_recording
       = [[1, 2, 3], [4, 5, 6]]
   \<and> concat [[1, 2], [3, 4], [5, 6]]
       = concat (recording_loop_streams (capture_stream tiny_platform) tiny_recording)
   \<and> (\<exists>f. main tiny_platform [''voicememo'', ''record'', ''-k'', ''AB'', ''-d'', ''0'']
        = Some \<lparr>exit_code = 0, played = [[1, 2], [3, 4], [5, 6]], final = f\<rparr>)"
proof -
  obtain s2 where p: "playback_loop (playback_requests tiny_platform)
          (start_playback (update (recording_callbacks [[4, 5, 6]]
               (update (recording_callbacks [[1, 2, 3]] tiny_recording)))))
        = Some ([[1, 2], [3, 4], [5, 6]], s2)"
    using tiny_playback_loop by blast
  have a: "buffer_byte_position example_recording = 0
      \<and> length (concat (replicate 54 example_chunk)) \<le> unat (buffer_byte_size example_recording)
      \<and> sum_list (replicate 108 16384) = length (concat (replicate 54 example_chunk))"
    by (simp add: example_recording_fields length_example_chunks sum_list_replicate)
  have b: "recording_loop (capture_stream tiny_platform) tiny_recording
             = Some (update (recording_callbacks [[4, 5, 6]]
                       (update (recording_callbacks [[1, 2, 3]] tiny_recording))))
        \<and> playback_loop (playback_requests tiny_platform)
              (start_playback (update (recording_callbacks [[4, 5, 6]]
                 (update (recording_callbacks [[1, 2, 3]] tiny_recording)))))
            = Some ([[1, 2], [3, 4], [5, 6]], s2)
        \<and> buffer_byte_position tiny_recording = 0
        \<and> length (concat (recording_loop_streams (capture_stream tiny_platform) tiny_recording))
            \<le> unat (buffer_byte_size tiny_recording)
        \<and> length (concat [[1, 2], [3, 4], [5, 6 :: Uint8]])
            = length (concat (recording_loop_streams (capture_stream tiny_platform)
                                tiny_recording))"
    using p by (simp add: tiny_recording_loop tiny_recording_fields)
  from playback_returns_recorded_bytes
         [where s = example_recording and streams = "replicate 54 example_chunk"
            and lens = "replicate 108 16384" and sched = "capture_stream tiny_platform"
            and t = tiny_recording
            and ?t1.0 = "update (recording_callbacks [[4, 5, 6]]
                           (update (recording_callbacks [[1, 2, 3]] tiny_recording)))"
            and reqs = "playback_requests tiny_platform"
            and outs = "[[1, 2], [3, 4], [5, 6]]" and ?t2.0 = s2]
  have "concat (fst (playback_callbacks (replicate 108 16384)
                    (start_playback (update
                       (recording_callbacks (replicate 54 example_chunk) example_recording)))))
       = concat (replicate 54 example_chunk)
     \<and> concat [[1, 2], [3, 4], [5, 6]]
       = concat (recording_loop_streams (capture_stream tiny_platform) tiny_recording)"
    using a b by blast
  then show ?thesis
    using b tiny_main by (simp add: tiny_recording_loop)
qed

end
